theory Spec2Isabelle
  imports Complex_Main
begin

section \<open>Data model\<close>

text \<open>
  The development embeds the cart and order logic of the shop backend:
  \<^verbatim>\<open>backend/models/Cart.js\<close>, \<^verbatim>\<open>backend/models/Order.js\<close>, the product model's
  \<^verbatim>\<open>updateStock\<close>, and the order, cart and payment route handlers.

  Conventions of the embedding.
  \<^item> A JavaScript \<^verbatim>\<open>Number\<close> holding money is a finite double, written as the rational
    (\<^typ>\<open>rat\<close>) it denotes. An arithmetic operation gives the exact result rounded to a
    double; the rounding is the parameter \<open>rnd\<close> of every definition that computes with
    money, and the literal \<^verbatim>\<open>0.08\<close> is \<open>rnd (8 / 100)\<close>. Every theorem holds for every
    \<open>rnd\<close>: for the round-to-nearest of the machine and for exact arithmetic
    (\<open>\<lambda>x. x\<close>) alike. \<^verbatim>\<open>NaN\<close> is modelled where the code computes with
    \<^verbatim>\<open>undefined\<close> (the subtotal of a cart); overflow to \<^verbatim>\<open>Infinity\<close> is outside the
    model. Quantities and stock counts are integers (\<^typ>\<open>int\<close>), which doubles
    hold exactly.
  \<^item> An \<^verbatim>\<open>ObjectId\<close> is an opaque identifier, compared by equality.
  \<^item> \<^verbatim>\<open>throw new Error(...)\<close> is the left summand of a sum type; one constructor of
    \<open>error\<close> per message of the source.
  \<^item> A document is a record; a method that mutates \<^verbatim>\<open>this\<close> and saves returns the
    saved document. A handler that reads and writes collections takes and returns the
    store.
  \<^item> \<^verbatim>\<open>new Date()\<close> is an input of the operation that calls it; the calls made while
    one request is served read the same instant.
  \<^item> Requests are served one after another; a request that throws before it saves
    writes nothing.
  \<^item> A cart line's \<^verbatim>\<open>product\<close> is the stored id, or, in a cart loaded with
    \<^verbatim>\<open>populate('items.product')\<close>, the product document or \<^verbatim>\<open>null\<close>.
  \<^item> A line stored without a variant has \<open>ci_variant = None\<close>; a variant that was given
    carries its additional price. Two variants are the same when their fields are equal.
\<close>

type_synonym objectId = nat

text \<open>
  What \<^verbatim>\<open>item.product\<close> holds: the id as stored (\<open>Ref\<close>), the populated document of
  the product with that id (\<open>Doc\<close>), or \<^verbatim>\<open>null\<close> where populate found no product for
  the stored id (\<open>Missing\<close>; the id is kept because the stored line still has it).
\<close>

datatype productRef = Ref objectId | Doc objectId | Missing objectId

record variant =
  v_name :: string
  v_value :: string
  additionalPrice :: rat

record cartItem =
  ci_product :: productRef
  ci_name :: string
  ci_image :: string
  ci_price :: rat
  ci_quantity :: int
  ci_variant :: "variant option"

record cart =
  c_user :: objectId
  items :: "cartItem list"
  c_couponCode :: "string option"
  couponDiscount :: rat
  subtotal :: rat
  tax :: rat
  shipping :: rat
  total :: rat

datatype productStatus = Active | Inactive | Archived | OutOfStock

record product =
  p_name :: string
  p_images :: "string list"
  p_price :: rat
  countInStock :: int
  isActive :: bool
  p_status :: productStatus

type_synonym catalog = "objectId \<rightharpoonup> product"

datatype error =
    ProductNotFound
  | ProductNotAvailable
  | ItemNotFoundInCart
  | InvalidCouponCode
  | MinimumOrderAmountRequired rat
  | ValidationError
  | InsufficientStock
  | OrderNotFound
  | NotAuthorized
  | OrderAlreadyPaid
  | CannotCancelShippedOrDelivered
  | FailedToConfirmPayment
  | TypeError
  | EmptyCart

subsection \<open>Strings\<close>

text \<open>White space, and \<^verbatim>\<open>trim\<close>, on ASCII strings.\<close>

definition isWhiteSpace :: "char \<Rightarrow> bool" where
  "isWhiteSpace ch \<longleftrightarrow> (of_char ch :: nat) \<in> {9, 10, 11, 12, 13, 32}"

definition trim :: "string \<Rightarrow> string" where
  "trim s = rev (dropWhile isWhiteSpace (rev (dropWhile isWhiteSpace s)))"

subsection \<open>Arithmetic on doubles\<close>

text \<open>
  The four operations of the code on finite doubles: the exact result, rounded by
  \<open>rnd\<close>.
\<close>

definition jsAdd :: "(rat \<Rightarrow> rat) \<Rightarrow> rat \<Rightarrow> rat \<Rightarrow> rat" where
  "jsAdd rnd a b = rnd (a + b)"

definition jsSub :: "(rat \<Rightarrow> rat) \<Rightarrow> rat \<Rightarrow> rat \<Rightarrow> rat" where
  "jsSub rnd a b = rnd (a - b)"

definition jsMul :: "(rat \<Rightarrow> rat) \<Rightarrow> rat \<Rightarrow> rat \<Rightarrow> rat" where
  "jsMul rnd a b = rnd (a * b)"

definition jsDiv :: "(rat \<Rightarrow> rat) \<Rightarrow> rat \<Rightarrow> rat \<Rightarrow> rat" where
  "jsDiv rnd a b = rnd (a / b)"

text \<open>
  The rounding of the machine: the double nearest to \<open>x\<close>, ties to the even significand
  (53 significant bits; magnitudes in the normal range of doubles). \<open>binaryExponent x\<close> is
  the \<open>e\<close> with \<open>2 ^ e \<le> x < 2 ^ (e + 1)\<close> for a positive \<open>x\<close>.
\<close>

definition pow2 :: "int \<Rightarrow> rat" where
  "pow2 e = (if 0 \<le> e then 2 ^ nat e else 1 / 2 ^ nat (- e))"

function bitLength :: "int \<Rightarrow> int" where
  "bitLength n = (if n \<le> 0 then 0 else 1 + bitLength (n div 2))"
  by pat_completeness auto

termination
  by (relation "measure nat") auto

declare bitLength.simps [simp del]

definition binaryExponent :: "rat \<Rightarrow> int" where
  "binaryExponent x =
     (let e = bitLength (fst (quotient_of x)) - bitLength (snd (quotient_of x))
      in if pow2 e \<le> x then e else e - 1)"

definition roundHalfEven :: "rat \<Rightarrow> int" where
  "roundHalfEven y =
     (let n = \<lfloor>y\<rfloor>; f = y - of_int n
      in if f < 1 / 2 then n else if 1 / 2 < f then n + 1 else if even n then n else n + 1)"

definition toDouble :: "rat \<Rightarrow> rat" where
  "toDouble x =
     (if x = 0 then 0
      else (let q = pow2 (binaryExponent \<bar>x\<bar> - 52) in of_int (roundHalfEven (x / q)) * q))"

text \<open>The literal \<^verbatim>\<open>0.08\<close> of both the cart hook and the checkout handler.\<close>

definition taxRate :: "(rat \<Rightarrow> rat) \<Rightarrow> rat" where
  "taxRate rnd = rnd (8 / 100)"

section \<open>Cart model (Cart.js)\<close>

subsection \<open>Loading a cart\<close>

text \<open>
  \<^verbatim>\<open>findOrCreateCart\<close> loads the cart with \<^verbatim>\<open>populate('items.product')\<close>: every stored
  id is replaced by the product's document, or by \<^verbatim>\<open>null\<close> when the catalog has no such
  product. \<^verbatim>\<open>Cart.findOne\<close> without populate leaves the ids. A save writes the ids back.
\<close>

definition populateRef :: "catalog \<Rightarrow> productRef \<Rightarrow> productRef" where
  "populateRef db r =
     (case r of
        Ref i \<Rightarrow> (if db i = None then Missing i else Doc i)
      | Doc i \<Rightarrow> Doc i
      | Missing i \<Rightarrow> Missing i)"

definition populateCart :: "catalog \<Rightarrow> cart \<Rightarrow> cart" where
  "populateCart db c =
     c\<lparr>items := map (\<lambda>item. item\<lparr>ci_product := populateRef db (ci_product item)\<rparr>) (items c)\<rparr>"

definition depopulateRef :: "productRef \<Rightarrow> productRef" where
  "depopulateRef r = (case r of Doc i \<Rightarrow> Ref i | Ref i \<Rightarrow> Ref i | Missing i \<Rightarrow> Ref i)"

definition depopulateCart :: "cart \<Rightarrow> cart" where
  "depopulateCart c =
     c\<lparr>items := map (\<lambda>item. item\<lparr>ci_product := depopulateRef (ci_product item)\<rparr>) (items c)\<rparr>"

subsection \<open>Schema validation and the save hook\<close>

text \<open>
  \<^verbatim>\<open>cartItemSchema\<close>: product, name and image are required, price has \<^verbatim>\<open>min: 0\<close>,
  quantity has \<^verbatim>\<open>min: 1, max: 10\<close>. \<^verbatim>\<open>cartSchema\<close>: the five money fields have
  \<^verbatim>\<open>min: 0\<close>. Validation runs when \<^verbatim>\<open>save()\<close> is called, ahead of the schema's own
  \<^verbatim>\<open>pre('save')\<close> hook, so it sees the derived fields as they were before the hook
  recomputes them.
\<close>

definition isNull :: "productRef \<Rightarrow> bool" where
  "isNull r = (case r of Missing i \<Rightarrow> True | _ \<Rightarrow> False)"

definition cartItem_valid :: "cartItem \<Rightarrow> bool" where
  "cartItem_valid item \<longleftrightarrow>
     \<not> isNull (ci_product item) \<and> ci_name item \<noteq> [] \<and> ci_image item \<noteq> [] \<and>
     0 \<le> ci_price item \<and> 1 \<le> ci_quantity item \<and> ci_quantity item \<le> 10"

definition cart_valid :: "cart \<Rightarrow> bool" where
  "cart_valid c \<longleftrightarrow>
     list_all cartItem_valid (items c) \<and> 0 \<le> couponDiscount c \<and> 0 \<le> subtotal c \<and>
     0 \<le> tax c \<and> 0 \<le> shipping c \<and> 0 \<le> total c"

text \<open>
  \<^verbatim>\<open>item.price + (item.variant ? item.variant.additionalPrice : 0)\<close>. The schema declares
  \<^verbatim>\<open>variant\<close> as a nested path, so \<^verbatim>\<open>item.variant\<close> is an object, and truthy, on every
  line. On a line stored without a variant its \<^verbatim>\<open>additionalPrice\<close> is \<^verbatim>\<open>undefined\<close>, and
  the price of the line is \<^verbatim>\<open>NaN\<close>, here \<open>None\<close>: the branch \<^verbatim>\<open>: 0\<close> is never taken.
\<close>

definition itemPrice :: "(rat \<Rightarrow> rat) \<Rightarrow> cartItem \<Rightarrow> rat option" where
  "itemPrice rnd item =
     (case ci_variant item of
        None \<Rightarrow> None
      | Some v \<Rightarrow> Some (jsAdd rnd (ci_price item) (additionalPrice v)))"

text \<open>
  The \<^verbatim>\<open>reduce\<close> of the hook, from the left with initial value 0:
  \<^verbatim>\<open>total + (itemPrice * item.quantity)\<close>. \<^verbatim>\<open>NaN\<close> stays \<^verbatim>\<open>NaN\<close>.
\<close>

definition addLine :: "(rat \<Rightarrow> rat) \<Rightarrow> rat option \<Rightarrow> cartItem \<Rightarrow> rat option" where
  "addLine rnd acc item =
     (case acc of
        None \<Rightarrow> None
      | Some a \<Rightarrow>
          (case itemPrice rnd item of
             None \<Rightarrow> None
           | Some p \<Rightarrow> Some (jsAdd rnd a (jsMul rnd p (of_int (ci_quantity item))))))"

definition calcSubtotal :: "(rat \<Rightarrow> rat) \<Rightarrow> cartItem list \<Rightarrow> rat option" where
  "calcSubtotal rnd its = foldl (addLine rnd) (Some 0) its"

text \<open>
  The hook. Assigning \<^verbatim>\<open>NaN\<close> to the Number path \<^verbatim>\<open>subtotal\<close> fails its cast and the
  path keeps the value it had; the three assignments that follow read \<^verbatim>\<open>this.subtotal\<close>,
  so they are computed from that kept value.
\<close>

definition preSave :: "(rat \<Rightarrow> rat) \<Rightarrow> cart \<Rightarrow> cart" where
  "preSave rnd c =
     (let sub = (case calcSubtotal rnd (items c) of None \<Rightarrow> subtotal c | Some s \<Rightarrow> s);
          tx = jsMul rnd sub (taxRate rnd);
          ship = (if sub \<ge> 100 then 0 else 10)
      in c\<lparr>subtotal := sub, tax := tx, shipping := ship,
            total := jsSub rnd (jsAdd rnd (jsAdd rnd sub tx) ship) (couponDiscount c)\<rparr>)"

definition save :: "(rat \<Rightarrow> rat) \<Rightarrow> cart \<Rightarrow> error + cart" where
  "save rnd c = (if cart_valid c then Inr (preSave rnd c) else Inl ValidationError)"

text \<open>A cart as the collection holds it: the product of every line is an id.\<close>

definition storedCart :: "cart \<Rightarrow> bool" where
  "storedCart c \<longleftrightarrow>
     list_all (\<lambda>item. case ci_product item of Ref i \<Rightarrow> True | _ \<Rightarrow> False) (items c)"

text \<open>\<^verbatim>\<open>this.create({ user: userId, items: [] })\<close>: schema defaults, then the hook.\<close>

definition newCart :: "(rat \<Rightarrow> rat) \<Rightarrow> objectId \<Rightarrow> cart" where
  "newCart rnd u = preSave rnd \<lparr>c_user = u, items = [], c_couponCode = None,
     couponDiscount = 0, subtotal = 0, tax = 0, shipping = 0, total = 0\<rparr>"

subsection \<open>Item operations\<close>

text \<open>
  \<^verbatim>\<open>findIndex\<close> returns the first index whose element satisfies the callback, or
  \<open>-1\<close> (here \<open>None\<close>); a callback that throws ends the search with its error.
\<close>

fun findIndex :: "('a \<Rightarrow> error + bool) \<Rightarrow> 'a list \<Rightarrow> error + nat option" where
  "findIndex P [] = Inr None"
| "findIndex P (x # xs) =
     (case P x of
        Inl e \<Rightarrow> Inl e
      | Inr b \<Rightarrow>
          if b then Inr (Some 0)
          else (case findIndex P xs of Inl e \<Rightarrow> Inl e | Inr r \<Rightarrow> Inr (map_option Suc r)))"

text \<open>
  The callback of \<^verbatim>\<open>findIndex\<close> in all three item methods:
  \<^verbatim>\<open>item.product.toString() === productId.toString()\<close> and equal JSON serialisations of
  the two variants. On a stored id \<^verbatim>\<open>toString()\<close> is the id. On a populated document it
  is the printed document, never an id, so the product comparison is false. On
  \<^verbatim>\<open>null\<close> the call throws a TypeError.
\<close>

definition sameLine :: "objectId \<Rightarrow> variant option \<Rightarrow> cartItem \<Rightarrow> error + bool" where
  "sameLine productId v item =
     (case ci_product item of
        Missing i \<Rightarrow> Inl TypeError
      | Doc i \<Rightarrow> Inr False
      | Ref i \<Rightarrow> Inr (i = productId \<and> ci_variant item = v))"

text \<open>\<^verbatim>\<open>product.images[0]?.url || ''\<close>\<close>

definition firstImage :: "product \<Rightarrow> string" where
  "firstImage p = (case p_images p of [] \<Rightarrow> [] | u # _ \<Rightarrow> u)"

definition addItem ::
  "(rat \<Rightarrow> rat) \<Rightarrow> catalog \<Rightarrow> objectId \<Rightarrow> int \<Rightarrow> variant option \<Rightarrow> cart \<Rightarrow> error + cart" where
  "addItem rnd db productId qty v c =
     (case findIndex (sameLine productId v) (items c) of
        Inl e \<Rightarrow> Inl e
      | Inr (Some i) \<Rightarrow>
          (let item = items c ! i;
               q = ci_quantity item + qty;
               q' = (if q > 10 then 10 else q)
           in save rnd (c\<lparr>items := (items c)[i := item\<lparr>ci_quantity := q'\<rparr>]\<rparr>))
      | Inr None \<Rightarrow>
          (case db productId of
             None \<Rightarrow> Inl ProductNotFound
           | Some p \<Rightarrow>
               if \<not> isActive p \<or> countInStock p < qty then Inl ProductNotAvailable
               else save rnd (c\<lparr>items := items c @
                      [\<lparr>ci_product = Ref productId, ci_name = p_name p,
                        ci_image = firstImage p, ci_price = p_price p,
                        ci_quantity = min qty 10, ci_variant = v\<rparr>]\<rparr>)))"

text \<open>\<^verbatim>\<open>this.items.splice(itemIndex, 1)\<close>\<close>

definition splice1 :: "nat \<Rightarrow> 'a list \<Rightarrow> 'a list" where
  "splice1 i xs = take i xs @ drop (Suc i) xs"

definition updateItemQuantity ::
  "(rat \<Rightarrow> rat) \<Rightarrow> objectId \<Rightarrow> int \<Rightarrow> variant option \<Rightarrow> cart \<Rightarrow> error + cart" where
  "updateItemQuantity rnd productId qty v c =
     (case findIndex (sameLine productId v) (items c) of
        Inl e \<Rightarrow> Inl e
      | Inr None \<Rightarrow> Inl ItemNotFoundInCart
      | Inr (Some i) \<Rightarrow>
          if qty \<le> 0 then save rnd (c\<lparr>items := splice1 i (items c)\<rparr>)
          else save rnd
                 (c\<lparr>items := (items c)[i := (items c ! i)\<lparr>ci_quantity := min qty 10\<rparr>]\<rparr>))"

definition removeItem ::
  "(rat \<Rightarrow> rat) \<Rightarrow> objectId \<Rightarrow> variant option \<Rightarrow> cart \<Rightarrow> error + cart" where
  "removeItem rnd productId v c =
     (case findIndex (sameLine productId v) (items c) of
        Inl e \<Rightarrow> Inl e
      | Inr None \<Rightarrow> Inl ItemNotFoundInCart
      | Inr (Some i) \<Rightarrow> save rnd (c\<lparr>items := splice1 i (items c)\<rparr>))"

definition clearCart :: "(rat \<Rightarrow> rat) \<Rightarrow> cart \<Rightarrow> error + cart" where
  "clearCart rnd c = save rnd (c\<lparr>items := [], c_couponCode := None, couponDiscount := 0\<rparr>)"

subsection \<open>Coupons\<close>

datatype couponType = Percentage | Fixed

record coupon =
  cp_type :: couponType
  cp_value :: rat
  minAmount :: rat

text \<open>The object literal \<^verbatim>\<open>coupons\<close> of \<^verbatim>\<open>applyCoupon\<close>.\<close>

definition coupons :: "string \<Rightarrow> coupon option" where
  "coupons code =
     (if code = ''SAVE10'' then Some \<lparr>cp_type = Percentage, cp_value = 10, minAmount = 50\<rparr>
      else if code = ''SAVE20'' then Some \<lparr>cp_type = Percentage, cp_value = 20, minAmount = 100\<rparr>
      else if code = ''FLAT15'' then Some \<lparr>cp_type = Fixed, cp_value = 15, minAmount = 75\<rparr>
      else None)"

text \<open>\<^verbatim>\<open>toUpperCase\<close> on the ASCII letters; other characters are kept.\<close>

definition upperChar :: "char \<Rightarrow> char" where
  "upperChar ch =
     (let n = (of_char ch :: nat) in if 97 \<le> n \<and> n \<le> 122 then char_of (n - 32) else ch)"

definition toUpperCase :: "string \<Rightarrow> string" where
  "toUpperCase s = map upperChar s"

text \<open>
  The discount of a coupon on an amount: \<^verbatim>\<open>(amount * coupon.value) / 100\<close> for a
  percentage, the flat value otherwise.
\<close>

definition couponAmount :: "(rat \<Rightarrow> rat) \<Rightarrow> coupon \<Rightarrow> rat \<Rightarrow> rat" where
  "couponAmount rnd cp amount =
     (case cp_type cp of
        Percentage \<Rightarrow> jsDiv rnd (jsMul rnd amount (cp_value cp)) 100
      | Fixed \<Rightarrow> cp_value cp)"

definition applyCoupon :: "(rat \<Rightarrow> rat) \<Rightarrow> string \<Rightarrow> cart \<Rightarrow> error + cart" where
  "applyCoupon rnd code c =
     (case coupons (toUpperCase code) of
        None \<Rightarrow> Inl InvalidCouponCode
      | Some cp \<Rightarrow>
          if subtotal c < minAmount cp then Inl (MinimumOrderAmountRequired (minAmount cp))
          else save rnd (c\<lparr>couponDiscount := couponAmount rnd cp (subtotal c),
                           c_couponCode := Some (toUpperCase code)\<rparr>))"

definition removeCoupon :: "(rat \<Rightarrow> rat) \<Rightarrow> cart \<Rightarrow> error + cart" where
  "removeCoupon rnd c = save rnd (c\<lparr>c_couponCode := None, couponDiscount := 0\<rparr>)"

section \<open>Product stock (Product model)\<close>

datatype stockOperation = Subtract | Add

text \<open>
  \<^verbatim>\<open>updateStock(quantity, operation)\<close>: the stock count changes, the status follows the
  count, and the product is saved; the save rejects a count below 0
  (\<^verbatim>\<open>min: [0, 'Stock must be a positive number']\<close>).
\<close>

definition stockStatus :: "product \<Rightarrow> product" where
  "stockStatus p =
     (if countInStock p = 0 then p\<lparr>p_status := OutOfStock\<rparr>
      else if p_status p = OutOfStock then p\<lparr>p_status := Active\<rparr>
      else p)"

definition saveProduct :: "product \<Rightarrow> error + product" where
  "saveProduct p = (if countInStock p < 0 then Inl ValidationError else Inr p)"

definition updateStock :: "int \<Rightarrow> stockOperation \<Rightarrow> product \<Rightarrow> error + product" where
  "updateStock qty operation p =
     (case operation of
        Subtract \<Rightarrow>
          if countInStock p < qty then Inl InsufficientStock
          else saveProduct (stockStatus (p\<lparr>countInStock := countInStock p - qty\<rparr>))
      | Add \<Rightarrow> saveProduct (stockStatus (p\<lparr>countInStock := countInStock p + qty\<rparr>)))"

section \<open>Order model (Order.js)\<close>

text \<open>
  A \<^verbatim>\<open>Date\<close> is read through the four accessors the code uses; \<open>getMonth\<close> counts
  from 0 as in JavaScript, \<open>getTime\<close> orders dates.
\<close>

record date =
  getFullYear :: nat
  getMonth :: nat
  getDate :: nat
  getTime :: nat

datatype orderStatus = Pending | Processing | Shipped | Delivered | Cancelled | Refunded

datatype paymentMethod = Stripe | Razorpay | Paypal | CashOnDelivery

record orderItem =
  oi_product :: objectId
  oi_name :: string
  oi_image :: string
  oi_price :: rat
  oi_quantity :: int
  oi_variant :: "variant option"

text \<open>The field \<^verbatim>\<open>update_time\<close> holds the ISO string of a date; the model keeps the date.\<close>

record paymentResult =
  pr_id :: string
  pr_status :: string
  update_time :: date
  email_address :: string
  pr_paymentMethod :: paymentMethod
  transactionId :: string
  pr_currency :: string

record historyEntry =
  h_status :: orderStatus
  h_timestamp :: date
  h_note :: string
  h_updatedBy :: "objectId option"

text \<open>
  The order document. Addresses, notes, currency and the estimated delivery date are
  carried through unchanged by every operation modelled here and are left out.
\<close>

record order =
  o_id :: objectId
  o_user :: objectId
  orderNumber :: string
  orderItems :: "orderItem list"
  o_paymentMethod :: paymentMethod
  o_paymentResult :: "paymentResult option"
  itemsPrice :: rat
  taxPrice :: rat
  shippingPrice :: rat
  discountAmount :: rat
  o_couponCode :: "string option"
  totalPrice :: rat
  status :: orderStatus
  isPaid :: bool
  paidAt :: "date option"
  isDelivered :: bool
  deliveredAt :: "date option"
  shippedAt :: "date option"
  cancelledAt :: "date option"
  refundedAt :: "date option"
  cancellationReason :: "string option"
  trackingNumber :: "string option"
  carrier :: "string option"
  statusHistory :: "historyEntry list"
  createdAt :: date

record store =
  products :: catalog
  orders :: "order list"
  carts :: "objectId \<rightharpoonup> cart"

subsection \<open>Number formatting used by the order-number hook\<close>

definition digitChar :: "nat \<Rightarrow> char" where
  "digitChar d = char_of (48 + d)"

text \<open>\<^verbatim>\<open>toString()\<close> of a non-negative integer: its decimal digits.\<close>

fun natToString :: "nat \<Rightarrow> string" where
  "natToString n =
     (if n < 10 then [digitChar n] else natToString (n div 10) @ [digitChar (n mod 10)])"

declare natToString.simps [simp del]

text \<open>A JavaScript number that is an integer or \<^verbatim>\<open>NaN\<close> (\<open>None\<close>).\<close>

type_synonym jsInt = "int option"

definition numToString :: "jsInt \<Rightarrow> string" where
  "numToString x =
     (case x of
        None \<Rightarrow> ''NaN''
      | Some i \<Rightarrow> if i < 0 then CHR ''-'' # natToString (nat (- i)) else natToString (nat i))"

text \<open>\<^verbatim>\<open>s.substr(-k)\<close>: the last \<open>k\<close> characters, the whole string when it is shorter.\<close>

definition substrLast :: "nat \<Rightarrow> string \<Rightarrow> string" where
  "substrLast k s = drop (length s - k) s"

text \<open>\<^verbatim>\<open>s.padStart(n, '0')\<close>\<close>

definition padStart :: "nat \<Rightarrow> string \<Rightarrow> string" where
  "padStart n s = replicate (n - length s) CHR ''0'' @ s"

text \<open>
  \<^verbatim>\<open>parseInt(s)\<close>: leading white space (ASCII) is skipped, a sign is read, a
  \<^verbatim>\<open>0x\<close> prefix selects radix 16, then the longest prefix of digits is read; no digit
  gives \<^verbatim>\<open>NaN\<close>.
\<close>

definition digitValue :: "nat \<Rightarrow> char \<Rightarrow> nat option" where
  "digitValue radix ch =
     (let n = (of_char ch :: nat);
          v = (if 48 \<le> n \<and> n \<le> 57 then Some (n - 48)
               else if 97 \<le> n \<and> n \<le> 122 then Some (n - 87)
               else if 65 \<le> n \<and> n \<le> 90 then Some (n - 55)
               else None)
      in case v of None \<Rightarrow> None | Some d \<Rightarrow> if d < radix then Some d else None)"

fun digitsPrefix :: "nat \<Rightarrow> string \<Rightarrow> nat list" where
  "digitsPrefix radix [] = []"
| "digitsPrefix radix (ch # s) =
     (case digitValue radix ch of None \<Rightarrow> [] | Some d \<Rightarrow> d # digitsPrefix radix s)"

definition parseInt :: "string \<Rightarrow> jsInt" where
  "parseInt s =
     (let s1 = dropWhile isWhiteSpace s;
          neg = (case s1 of [] \<Rightarrow> False | ch # _ \<Rightarrow> ch = CHR ''-'');
          s2 = (case s1 of [] \<Rightarrow> [] | ch # r \<Rightarrow> if ch = CHR ''-'' \<or> ch = CHR ''+'' then r else s1);
          hex = (case s2 of a # b # _ \<Rightarrow> a = CHR ''0'' \<and> (b = CHR ''x'' \<or> b = CHR ''X'') | _ \<Rightarrow> False);
          radix = (if hex then 16 else 10);
          s3 = (if hex then drop 2 s2 else s2);
          ds = digitsPrefix radix s3;
          m = int (foldl (\<lambda>a d. a * radix + d) 0 ds)
      in if ds = [] then None else Some (if neg then - m else m))"

subsection \<open>The three save hooks\<close>

text \<open>
  The query of the first hook: the orders whose \<^verbatim>\<open>createdAt\<close> lies between today's
  midnight and the next, sorted by \<^verbatim>\<open>createdAt\<close> descending, first result. An order
  lies in that range when its calendar day is the day of \<open>now\<close>. Among orders with equal
  \<^verbatim>\<open>createdAt\<close> the one stored last is taken.
\<close>

definition sameDay :: "date \<Rightarrow> date \<Rightarrow> bool" where
  "sameDay a b \<longleftrightarrow>
     getFullYear a = getFullYear b \<and> getMonth a = getMonth b \<and> getDate a = getDate b"

fun latestCreated :: "order list \<Rightarrow> order option" where
  "latestCreated [] = None"
| "latestCreated (x # xs) =
     (case latestCreated xs of
        None \<Rightarrow> Some x
      | Some m \<Rightarrow> if getTime (createdAt x) \<le> getTime (createdAt m) then Some m else Some x)"

definition findLastOrderOfDay :: "order list \<Rightarrow> date \<Rightarrow> order option" where
  "findLastOrderOfDay coll now = latestCreated (filter (\<lambda>x. sameDay (createdAt x) now) coll)"

text \<open>
  \<^verbatim>\<open>let sequence = 1; if (lastOrder && lastOrder.orderNumber) { sequence =
  parseInt(lastOrder.orderNumber.substr(-4)) + 1 }\<close>
\<close>

definition nextSequence :: "order option \<Rightarrow> jsInt" where
  "nextSequence lastOrder =
     (case lastOrder of
        None \<Rightarrow> Some 1
      | Some lo \<Rightarrow>
          if orderNumber lo = [] then Some 1
          else map_option (\<lambda>lastSequence. lastSequence + 1)
                 (parseInt (substrLast 4 (orderNumber lo))))"

definition formatOrderNumber :: "date \<Rightarrow> jsInt \<Rightarrow> string" where
  "formatOrderNumber d sequence =
     (let year = substrLast 2 (natToString (getFullYear d));
          month = padStart 2 (natToString (getMonth d + 1));
          day = padStart 2 (natToString (getDate d))
      in ''ORD'' @ year @ month @ day @ padStart 4 (numToString sequence))"

text \<open>
  In the hooks \<open>orig\<close> is the document as it was loaded, \<open>None\<close> for a new document:
  \<^verbatim>\<open>this.isNew\<close> is \<open>orig = None\<close>, and \<^verbatim>\<open>this.isModified('status')\<close> holds when the
  status differs from the loaded one.
\<close>

definition orderNumberHook :: "order list \<Rightarrow> date \<Rightarrow> order option \<Rightarrow> order \<Rightarrow> order" where
  "orderNumberHook coll now orig this =
     (case orig of
        None \<Rightarrow>
          this\<lparr>orderNumber := formatOrderNumber now (nextSequence (findLastOrderOfDay coll now))\<rparr>
      | Some _ \<Rightarrow> this)"

definition statusName :: "orderStatus \<Rightarrow> string" where
  "statusName s =
     (case s of Pending \<Rightarrow> ''pending'' | Processing \<Rightarrow> ''processing'' | Shipped \<Rightarrow> ''shipped''
      | Delivered \<Rightarrow> ''delivered'' | Cancelled \<Rightarrow> ''cancelled'' | Refunded \<Rightarrow> ''refunded'')"

definition orElse :: "date option \<Rightarrow> date \<Rightarrow> date option" where
  "orElse cur now = (case cur of None \<Rightarrow> Some now | Some d \<Rightarrow> Some d)"

definition statusHistoryHook :: "date \<Rightarrow> order option \<Rightarrow> order \<Rightarrow> order" where
  "statusHistoryHook now orig this =
     (case orig of
        None \<Rightarrow> this
      | Some loaded \<Rightarrow>
          if status this \<noteq> status loaded then
            (let this1 = this\<lparr>statusHistory := statusHistory this @
                   [\<lparr>h_status = status this, h_timestamp = now,
                     h_note = ''Status updated to '' @ statusName (status this),
                     h_updatedBy = None\<rparr>]\<rparr>
             in case status this1 of
                  Shipped \<Rightarrow> this1\<lparr>shippedAt := orElse (shippedAt this1) now\<rparr>
                | Delivered \<Rightarrow>
                    this1\<lparr>deliveredAt := orElse (deliveredAt this1) now, isDelivered := True\<rparr>
                | Cancelled \<Rightarrow> this1\<lparr>cancelledAt := orElse (cancelledAt this1) now\<rparr>
                | Refunded \<Rightarrow> this1\<lparr>refundedAt := orElse (refundedAt this1) now\<rparr>
                | _ \<Rightarrow> this1)
          else this)"

definition initHistoryHook :: "date \<Rightarrow> order option \<Rightarrow> order \<Rightarrow> order" where
  "initHistoryHook now orig this =
     (case orig of
        None \<Rightarrow>
          this\<lparr>statusHistory := statusHistory this @
            [\<lparr>h_status = status this, h_timestamp = now, h_note = ''Order created'',
              h_updatedBy = None\<rparr>]\<rparr>
      | Some _ \<Rightarrow> this)"

text \<open>
  What the three hooks do to a document, in the order of their registration; a new
  document gets its \<^verbatim>\<open>createdAt\<close> timestamp. For an order loaded from the collection
  (\<open>orig = Some _\<close>) this is the whole of \<^verbatim>\<open>save()\<close>: the stored order met the schema,
  and the handlers below write only a status of the enumeration, dates, strings, history
  entries and a payment result, which here always carries the payment method the schema
  requires; so the validation that precedes the hooks passes.
\<close>

definition saveOrder :: "order list \<Rightarrow> date \<Rightarrow> order option \<Rightarrow> order \<Rightarrow> order" where
  "saveOrder coll now orig this =
     (let this0 = (case orig of None \<Rightarrow> this\<lparr>createdAt := now\<rparr> | Some _ \<Rightarrow> this)
      in initHistoryHook now orig (statusHistoryHook now orig (orderNumberHook coll now orig this0)))"

text \<open>
  \<^verbatim>\<open>save()\<close> of a new document. The schema validation runs first, the hooks after it and
  only when it passed. \<^verbatim>\<open>orderItemSchema\<close>: name and image are required, price has
  \<^verbatim>\<open>min: 0\<close>, quantity has \<^verbatim>\<open>min: 1\<close>. \<^verbatim>\<open>orderSchema\<close>: \<^verbatim>\<open>orderNumber\<close> is
  required and the five amounts have \<^verbatim>\<open>min: 0\<close>. (The user, the payment method and the
  shipping address are required too; the first two are always present here and the
  address, which the request validators of the checkout demand, is not modelled.) A
  required string that is empty fails like an absent one. The unique index on
  \<^verbatim>\<open>orderNumber\<close>, which the database checks when the document is written, is not part
  of the model.
\<close>

definition orderItem_valid :: "orderItem \<Rightarrow> bool" where
  "orderItem_valid item \<longleftrightarrow>
     oi_name item \<noteq> [] \<and> oi_image item \<noteq> [] \<and> 0 \<le> oi_price item \<and> 1 \<le> oi_quantity item"

definition order_valid :: "order \<Rightarrow> bool" where
  "order_valid x \<longleftrightarrow>
     orderNumber x \<noteq> [] \<and> list_all orderItem_valid (orderItems x) \<and> 0 \<le> itemsPrice x \<and>
     0 \<le> taxPrice x \<and> 0 \<le> shippingPrice x \<and> 0 \<le> discountAmount x \<and> 0 \<le> totalPrice x"

definition saveNewOrder :: "order list \<Rightarrow> date \<Rightarrow> order \<Rightarrow> error + order" where
  "saveNewOrder coll now this =
     (if order_valid this then Inr (saveOrder coll now None this) else Inl ValidationError)"

text \<open>Writing a saved document back: a new one is appended, an existing one replaced.\<close>

definition findById :: "order list \<Rightarrow> objectId \<Rightarrow> order option" where
  "findById coll i = find (\<lambda>x. o_id x = i) coll"

definition putOrder :: "order \<Rightarrow> order list \<Rightarrow> order list" where
  "putOrder x coll =
     (if findById coll (o_id x) = None then coll @ [x]
      else map (\<lambda>y. if o_id y = o_id x then x else y) coll)"

subsection \<open>Instance methods\<close>

definition updatePaymentStatus :: "order list \<Rightarrow> date \<Rightarrow> paymentResult \<Rightarrow> order \<Rightarrow> order" where
  "updatePaymentStatus coll now pr this =
     (let this1 = this\<lparr>isPaid := True, paidAt := Some now, o_paymentResult := Some pr\<rparr>;
          this2 = (if status this1 = Pending then this1\<lparr>status := Processing\<rparr> else this1)
      in saveOrder coll now (Some this) this2)"

definition cancelOrder :: "order list \<Rightarrow> date \<Rightarrow> string \<Rightarrow> objectId \<Rightarrow> order \<Rightarrow> error + order" where
  "cancelOrder coll now reason cancelledBy this =
     (if status this \<in> {Shipped, Delivered} then Inl CannotCancelShippedOrDelivered
      else
        Inr (saveOrder coll now (Some this)
          (this\<lparr>status := Cancelled, cancelledAt := Some now,
                cancellationReason := Some reason,
                statusHistory := statusHistory this @
                  [\<lparr>h_status = Cancelled, h_timestamp = now,
                    h_note = ''Order cancelled: '' @ reason,
                    h_updatedBy = Some cancelledBy\<rparr>]\<rparr>)))"

section \<open>Order routes (orderRoutes.js)\<close>

subsection \<open>Checkout: POST /api/orders\<close>

record reqItem =
  ri_product :: objectId
  ri_quantity :: int
  ri_variant :: "variant option"

record orderRequest =
  r_orderItems :: "reqItem list"
  r_paymentMethod :: paymentMethod
  r_couponCode :: "string option"

text \<open>
  The first loop of the handler: every requested line is checked against the catalog,
  its price is added to \<^verbatim>\<open>itemsPrice\<close> and its snapshot is pushed on
  \<^verbatim>\<open>processedItems\<close>.
\<close>

fun processItems ::
  "(rat \<Rightarrow> rat) \<Rightarrow> catalog \<Rightarrow> reqItem list \<Rightarrow> rat \<Rightarrow> orderItem list \<Rightarrow>
   error + (rat \<times> orderItem list)" where
  "processItems rnd db [] price acc = Inr (price, acc)"
| "processItems rnd db (item # rest) price acc =
     (case db (ri_product item) of
        None \<Rightarrow> Inl ProductNotFound
      | Some p \<Rightarrow>
          if \<not> isActive p then Inl ProductNotFound
          else if countInStock p < ri_quantity item then Inl InsufficientStock
          else processItems rnd db rest
                 (jsAdd rnd price (jsMul rnd (p_price p) (of_int (ri_quantity item))))
                 (acc @ [\<lparr>oi_product = ri_product item, oi_name = p_name p,
                           oi_image = firstImage p, oi_price = p_price p,
                           oi_quantity = ri_quantity item, oi_variant = ri_variant item\<rparr>]))"

text \<open>
  The coupon block of the handler; it repeats the table of \<^verbatim>\<open>applyCoupon\<close>. An absent
  or empty code, an unknown code and a minimum not met all leave the discount at 0.
\<close>

definition orderDiscount :: "(rat \<Rightarrow> rat) \<Rightarrow> string option \<Rightarrow> rat \<Rightarrow> rat" where
  "orderDiscount rnd couponCode price =
     (case couponCode of
        None \<Rightarrow> 0
      | Some code \<Rightarrow>
          if code = [] then 0
          else
            (case coupons (toUpperCase code) of
               None \<Rightarrow> 0
             | Some cp \<Rightarrow> if price \<ge> minAmount cp then couponAmount rnd cp price else 0))"


definition epoch :: date where
  "epoch = \<lparr>getFullYear = 1970, getMonth = 0, getDate = 1, getTime = 0\<rparr>"

text \<open>
  The document built by \<^verbatim>\<open>new Order({...})\<close>: the fields the handler passes, schema
  defaults elsewhere. The handler passes no \<^verbatim>\<open>orderNumber\<close>, and the schema has no
  default for it: the field is absent (the empty string here).
\<close>

definition newOrder ::
  "objectId \<Rightarrow> objectId \<Rightarrow> orderItem list \<Rightarrow> paymentMethod \<Rightarrow> rat \<Rightarrow> rat \<Rightarrow> rat \<Rightarrow> rat \<Rightarrow>
   string option \<Rightarrow> rat \<Rightarrow> order" where
  "newOrder newId userId its pm ip tp sp da cc tot =
     \<lparr>o_id = newId, o_user = userId, orderNumber = [], orderItems = its,
      o_paymentMethod = pm, o_paymentResult = None, itemsPrice = ip, taxPrice = tp,
      shippingPrice = sp, discountAmount = da, o_couponCode = cc, totalPrice = tot,
      status = Pending, isPaid = False, paidAt = None, isDelivered = False,
      deliveredAt = None, shippedAt = None, cancelledAt = None, refundedAt = None,
      cancellationReason = None, trackingNumber = None, carrier = None,
      statusHistory = [], createdAt = epoch\<rparr>"

text \<open>
  The handler up to \<^verbatim>\<open>new Order({...})\<close>. The request validators demand at least one
  line and a quantity of at least 1 on each. The result is the document as it is handed to
  \<^verbatim>\<open>save()\<close>, or the error thrown before.
\<close>

definition checkoutDocument ::
  "(rat \<Rightarrow> rat) \<Rightarrow> store \<Rightarrow> objectId \<Rightarrow> objectId \<Rightarrow> orderRequest \<Rightarrow> error + order" where
  "checkoutDocument rnd st newId userId req =
     (if r_orderItems req = [] \<or> \<not> list_all (\<lambda>item. 1 \<le> ri_quantity item) (r_orderItems req)
      then Inl ValidationError
      else
        (case processItems rnd (products st) (r_orderItems req) 0 [] of
           Inl e \<Rightarrow> Inl e
         | Inr (price, processedItems) \<Rightarrow>
             (let tp = jsMul rnd price (taxRate rnd);
                  sp = (if price \<ge> 100 then 0 else 10);
                  da = orderDiscount rnd (r_couponCode req) price;
                  tot = jsSub rnd (jsAdd rnd (jsAdd rnd price tp) sp) da
              in Inr (newOrder newId userId processedItems (r_paymentMethod req)
                        price tp sp da (r_couponCode req) tot))))"


subsection \<open>PUT /api/orders/:id/pay\<close>

definition payOrder ::
  "store \<Rightarrow> date \<Rightarrow> objectId \<Rightarrow> objectId \<Rightarrow> paymentResult \<Rightarrow> (error + order) \<times> store" where
  "payOrder st now userId i pr =
     (if pr_id pr = [] \<or> pr_status pr = [] then (Inl ValidationError, st)
      else
        (case findById (orders st) i of
           None \<Rightarrow> (Inl OrderNotFound, st)
         | Some ord \<Rightarrow>
             if o_user ord \<noteq> userId then (Inl NotAuthorized, st)
             else if isPaid ord then (Inl OrderAlreadyPaid, st)
             else
               (let saved = updatePaymentStatus (orders st) now pr ord
                in (Inr saved, st\<lparr>orders := putOrder saved (orders st)\<rparr>))))"

subsection \<open>PUT /api/orders/:id/cancel\<close>

text \<open>
  The loop after \<^verbatim>\<open>cancelOrder\<close>: \<^verbatim>\<open>updateStock(item.quantity, 'add')\<close> for every
  line whose product still exists.
\<close>

fun restoreStock :: "catalog \<Rightarrow> orderItem list \<Rightarrow> error option \<times> catalog" where
  "restoreStock db [] = (None, db)"
| "restoreStock db (item # rest) =
     (case db (oi_product item) of
        None \<Rightarrow> restoreStock db rest
      | Some p \<Rightarrow>
          (case updateStock (oi_quantity item) Add p of
             Inl e \<Rightarrow> (Some e, db)
           | Inr p' \<Rightarrow> restoreStock (db(oi_product item \<mapsto> p')) rest))"

text \<open>\<^verbatim>\<open>req.body.reason || 'Cancelled by user'\<close>\<close>

definition reasonOrDefault :: "string option \<Rightarrow> string" where
  "reasonOrDefault r =
     (case r of None \<Rightarrow> ''Cancelled by user''
      | Some s \<Rightarrow> if s = [] then ''Cancelled by user'' else s)"

definition cancelOrderRoute ::
  "store \<Rightarrow> date \<Rightarrow> objectId \<Rightarrow> objectId \<Rightarrow> string option \<Rightarrow> (error + order) \<times> store" where
  "cancelOrderRoute st now userId i reason =
     (case findById (orders st) i of
        None \<Rightarrow> (Inl OrderNotFound, st)
      | Some ord \<Rightarrow>
          if o_user ord \<noteq> userId then (Inl NotAuthorized, st)
          else
            (case cancelOrder (orders st) now (reasonOrDefault reason) userId ord of
               Inl e \<Rightarrow> (Inl e, st)
             | Inr saved \<Rightarrow>
                 (let st1 = st\<lparr>orders := putOrder saved (orders st)\<rparr>
                  in case restoreStock (products st1) (orderItems saved) of
                       (Some e, db) \<Rightarrow> (Inl e, st1\<lparr>products := db\<rparr>)
                     | (None, db) \<Rightarrow> (Inr saved, st1\<lparr>products := db\<rparr>))))"

subsection \<open>PUT /api/orders/:id/status (admin)\<close>

record statusUpdate =
  su_status :: orderStatus
  su_trackingNumber :: "string option"
  su_carrier :: "string option"
  su_note :: "string option"

text \<open>\<^verbatim>\<open>if (x) order.f = x\<close>: an absent or empty string leaves the field.\<close>

definition setIfGiven :: "string option \<Rightarrow> string option \<Rightarrow> string option" where
  "setIfGiven given cur =
     (case given of None \<Rightarrow> cur | Some s \<Rightarrow> if s = [] then cur else Some s)"

definition updateOrderStatus ::
  "store \<Rightarrow> date \<Rightarrow> objectId \<Rightarrow> objectId \<Rightarrow> statusUpdate \<Rightarrow> (error + order) \<times> store" where
  "updateOrderStatus st now adminId i body =
     (case findById (orders st) i of
        None \<Rightarrow> (Inl OrderNotFound, st)
      | Some ord \<Rightarrow>
          (let note = (case su_note body of
                         None \<Rightarrow> ''Status updated to '' @ statusName (su_status body) @ '' by admin''
                       | Some n \<Rightarrow>
                           if n = [] then
                             ''Status updated to '' @ statusName (su_status body) @ '' by admin''
                           else n);
               ord1 = ord\<lparr>status := su_status body,
                         trackingNumber := setIfGiven (su_trackingNumber body) (trackingNumber ord),
                         carrier := setIfGiven (su_carrier body) (carrier ord),
                         statusHistory := statusHistory ord @
                           [\<lparr>h_status = su_status body, h_timestamp = now, h_note = note,
                             h_updatedBy = Some adminId\<rparr>]\<rparr>;
               saved = saveOrder (orders st) now (Some ord) ord1
           in (Inr saved, st\<lparr>orders := putOrder saved (orders st)\<rparr>)))"

section \<open>Payment routes (paymentRoutes.js)\<close>

text \<open>What the handlers read of a Stripe payment intent.\<close>

record paymentIntent =
  pi_id :: string
  pi_status :: string
  pi_currency :: string
  pi_orderId :: "objectId option"
  pi_userEmail :: string

text \<open>
  POST /api/payments/stripe/confirm. \<open>intent\<close> is what
  \<^verbatim>\<open>stripe.paymentIntents.retrieve\<close> returned. Every throw inside the \<^verbatim>\<open>try\<close> block is
  caught and rethrown as \<^verbatim>\<open>'Failed to confirm payment'\<close>.
\<close>

definition stripeConfirm ::
  "store \<Rightarrow> date \<Rightarrow> objectId \<Rightarrow> string \<Rightarrow> paymentIntent \<Rightarrow> objectId \<Rightarrow> (error + order) \<times> store" where
  "stripeConfirm st now userId userEmail intent orderId =
     (if pi_status intent = ''succeeded'' then
        (case findById (orders st) orderId of
           None \<Rightarrow> (Inl FailedToConfirmPayment, st)
         | Some ord \<Rightarrow>
             if o_user ord \<noteq> userId then (Inl FailedToConfirmPayment, st)
             else
               (let saved = updatePaymentStatus (orders st) now
                      \<lparr>pr_id = pi_id intent, pr_status = pi_status intent, update_time = now,
                       email_address = userEmail, pr_paymentMethod = Stripe,
                       transactionId = pi_id intent, pr_currency = pi_currency intent\<rparr> ord
                in (Inr saved, st\<lparr>orders := putOrder saved (orders st)\<rparr>)))
      else (Inl FailedToConfirmPayment, st))"

text \<open>
  POST /api/payments/webhook/stripe, event \<^verbatim>\<open>payment_intent.succeeded\<close>. The handler
  answers \<^verbatim>\<open>{ received: true }\<close> in every case; only the store matters.
\<close>

definition stripeWebhookSucceeded :: "store \<Rightarrow> date \<Rightarrow> paymentIntent \<Rightarrow> store" where
  "stripeWebhookSucceeded st now intent =
     (case pi_orderId intent of
        None \<Rightarrow> st
      | Some orderId \<Rightarrow>
          (case findById (orders st) orderId of
             None \<Rightarrow> st
           | Some ord \<Rightarrow>
               if \<not> isPaid ord then
                 st\<lparr>orders := putOrder
                   (updatePaymentStatus (orders st) now
                      \<lparr>pr_id = pi_id intent, pr_status = ''succeeded'', update_time = now,
                       email_address = pi_userEmail intent, pr_paymentMethod = Stripe,
                       transactionId = pi_id intent, pr_currency = pi_currency intent\<rparr> ord)
                   (orders st)\<rparr>
               else st))"

section \<open>Cart routes (mounted on /api/cart)\<close>

text \<open>
  The four mutating cart requests on a stored cart. Each handler checks the body, loads
  the cart, calls one method and answers; when the method throws nothing is written.
  POST /add loads the cart through \<^verbatim>\<open>findOrCreateCart\<close>, that is populated; the other three
  use \<^verbatim>\<open>Cart.findOne\<close>. What is written back holds the ids.
\<close>

datatype cartOp =
    AddItem objectId int "variant option"
  | UpdateItemQuantity objectId int "variant option"
  | RemoveItem objectId "variant option"
  | ApplyCoupon string

fun applyOp :: "(rat \<Rightarrow> rat) \<Rightarrow> catalog \<Rightarrow> cartOp \<Rightarrow> cart \<Rightarrow> error + cart" where
  "applyOp rnd db (AddItem p q v) c =
     (if q < 1 \<or> 10 < q then Inl ValidationError
      else (case addItem rnd db p q v (populateCart db c) of
              Inl e \<Rightarrow> Inl e
            | Inr c' \<Rightarrow> Inr (depopulateCart c')))"
| "applyOp rnd db (UpdateItemQuantity p q v) c =
     (if q < 0 \<or> 10 < q then Inl ValidationError else updateItemQuantity rnd p q v c)"
| "applyOp rnd db (RemoveItem p v) c = removeItem rnd p v c"
| "applyOp rnd db (ApplyCoupon code) c =
     (if code = [] then Inl ValidationError
      else if items c = [] then Inl EmptyCart
      else applyCoupon rnd (trim code) c)"

text \<open>The stored cart after one request, and after a sequence of requests.\<close>

definition cartRequest :: "(rat \<Rightarrow> rat) \<Rightarrow> cart \<Rightarrow> catalog \<times> cartOp \<Rightarrow> cart" where
  "cartRequest rnd c r = (case applyOp rnd (fst r) (snd r) c of Inl e \<Rightarrow> c | Inr c' \<Rightarrow> c')"

definition cartRequests :: "(rat \<Rightarrow> rat) \<Rightarrow> cart \<Rightarrow> (catalog \<times> cartOp) list \<Rightarrow> cart" where
  "cartRequests rnd c rs = foldl (cartRequest rnd) c rs"

section \<open>Predicates and sample data used in the statements\<close>

text \<open>
  The invariant of the cart's derived fields: the total is the value of
  \<^verbatim>\<open>subtotal + tax + shipping - couponDiscount\<close>, evaluated as the code evaluates it.
\<close>

definition total_ok :: "(rat \<Rightarrow> rat) \<Rightarrow> cart \<Rightarrow> bool" where
  "total_ok rnd c \<longleftrightarrow>
     total c = jsSub rnd (jsAdd rnd (jsAdd rnd (subtotal c) (tax c)) (shipping c)) (couponDiscount c)"

text \<open>A catalog entry priced 60 with five units in stock.\<close>

definition lamp :: product where
  "lamp = \<lparr>p_name = ''Lamp'', p_images = [''lamp.png''], p_price = 60, countInStock = 5,
     isActive = True, p_status = Active\<rparr>"

text \<open>
  The cart line that addItem stores for product 1 when the catalog holds \<open>lamp\<close> and the
  request names no variant.
\<close>

definition lampLine :: "int \<Rightarrow> cartItem" where
  "lampLine q = \<lparr>ci_product = Ref 1, ci_name = ''Lamp'', ci_image = ''lamp.png'',
     ci_price = 60, ci_quantity = q, ci_variant = None\<rparr>"

text \<open>A variant with no additional price.\<close>

definition plain :: variant where
  "plain = \<lparr>v_name = ''size'', v_value = ''M'', additionalPrice = 0\<rparr>"

text \<open>
  A shop with that one product and no order; the second of November 2026 at time \<open>t\<close>; a
  checkout request for two lamps with coupon \<^verbatim>\<open>save10\<close>; a pending order of user 7 for two
  lamps, stored at time 5; and a shop whose collection holds the order \<open>x\<close>.
\<close>

definition shop :: store where
  "shop = \<lparr>products = [1 \<mapsto> lamp], orders = [], carts = Map.empty\<rparr>"

definition onDay :: "nat \<Rightarrow> date" where
  "onDay t = \<lparr>getFullYear = 2026, getMonth = 10, getDate = 2, getTime = t\<rparr>"

definition lampRequest :: orderRequest where
  "lampRequest = \<lparr>r_orderItems = [\<lparr>ri_product = 1, ri_quantity = 2, ri_variant = None\<rparr>],
     r_paymentMethod = Stripe, r_couponCode = Some ''save10''\<rparr>"

definition lampOrder :: order where
  "lampOrder = \<lparr>o_id = 100, o_user = 7, orderNumber = ''ORD2611020001'',
     orderItems = [\<lparr>oi_product = 1, oi_name = ''Lamp'', oi_image = ''lamp.png'',
        oi_price = 60, oi_quantity = 2, oi_variant = None\<rparr>],
     o_paymentMethod = Stripe, o_paymentResult = None, itemsPrice = 120,
     taxPrice = 48 / 5, shippingPrice = 0, discountAmount = 12,
     o_couponCode = Some ''save10'', totalPrice = 588 / 5, status = Pending,
     isPaid = False, paidAt = None, isDelivered = False, deliveredAt = None,
     shippedAt = None, cancelledAt = None, refundedAt = None,
     cancellationReason = None, trackingNumber = None, carrier = None,
     statusHistory = [\<lparr>h_status = Pending, h_timestamp = onDay 5,
        h_note = ''Order created'', h_updatedBy = None\<rparr>],
     createdAt = onDay 5\<rparr>"

definition shopWith :: "order \<Rightarrow> store" where
  "shopWith x = \<lparr>products = [1 \<mapsto> lamp\<lparr>countInStock := 3\<rparr>], orders = [x],
     carts = Map.empty\<rparr>"

text \<open>The order after the admin marked it shipped at time 9.\<close>

definition shippedOrder :: order where
  "shippedOrder = lampOrder\<lparr>status := Shipped, shippedAt := Some (onDay 9),
     trackingNumber := Some ''T1'',
     statusHistory := statusHistory lampOrder @
       [\<lparr>h_status = Shipped, h_timestamp = onDay 9,
         h_note = ''Status updated to shipped by admin'', h_updatedBy = Some 1\<rparr>,
        \<lparr>h_status = Shipped, h_timestamp = onDay 9,
         h_note = ''Status updated to shipped'', h_updatedBy = None\<rparr>]\<rparr>"

text \<open>The order after its owner cancelled it at time 9.\<close>

definition cancelledOrder :: order where
  "cancelledOrder = lampOrder\<lparr>status := Cancelled, cancelledAt := Some (onDay 9),
     cancellationReason := Some ''Cancelled by user'',
     statusHistory := statusHistory lampOrder @
       [\<lparr>h_status = Cancelled, h_timestamp = onDay 9,
         h_note = ''Order cancelled: Cancelled by user'', h_updatedBy = Some 7\<rparr>,
        \<lparr>h_status = Cancelled, h_timestamp = onDay 9,
         h_note = ''Status updated to cancelled'', h_updatedBy = None\<rparr>]\<rparr>"

text \<open>A succeeded Stripe payment intent for that order, and the payment it records.\<close>

definition lampIntent :: paymentIntent where
  "lampIntent = \<lparr>pi_id = ''pi_1'', pi_status = ''succeeded'', pi_currency = ''usd'',
     pi_orderId = Some 100, pi_userEmail = ''a@b.c''\<rparr>"

definition lampPayment :: "nat \<Rightarrow> paymentResult" where
  "lampPayment t = \<lparr>pr_id = ''pi_1'', pr_status = ''succeeded'', update_time = onDay t,
     email_address = ''a@b.c'', pr_paymentMethod = Stripe, transactionId = ''pi_1'',
     pr_currency = ''usd''\<rparr>"

text \<open>The order after its payment was confirmed at time \<open>t\<close>.\<close>

definition paidOrder :: "nat \<Rightarrow> order" where
  "paidOrder t = lampOrder\<lparr>status := Processing, isPaid := True, paidAt := Some (onDay t),
     o_paymentResult := Some (lampPayment t),
     statusHistory := statusHistory lampOrder @
       [\<lparr>h_status = Processing, h_timestamp = onDay 8,
         h_note = ''Status updated to processing'', h_updatedBy = None\<rparr>]\<rparr>"

section \<open>Order numbers: the format of the specification\<close>

text \<open>
  The format the specification gives for an order number: two decimal digits (of a number
  taken modulo 100) and four decimal digits (modulo 10000).
\<close>

definition twoDigits :: "nat \<Rightarrow> string" where
  "twoDigits n = [digitChar (n div 10 mod 10), digitChar (n mod 10)]"

definition fourDigits :: "nat \<Rightarrow> string" where
  "fourDigits n =
     [digitChar (n div 1000 mod 10), digitChar (n div 100 mod 10), digitChar (n div 10 mod 10),
      digitChar (n mod 10)]"

text \<open>
  The document the checkout handler builds for \<open>lampRequest\<close> in \<open>shop\<close>, in exact
  arithmetic, and the same document with an order number supplied.
\<close>

definition draftOrder :: "objectId \<Rightarrow> order" where
  "draftOrder i = newOrder i 7
     [\<lparr>oi_product = 1, oi_name = ''Lamp'', oi_image = ''lamp.png'', oi_price = 60,
       oi_quantity = 2, oi_variant = None\<rparr>]
     Stripe 120 (48 / 5) 0 12 (Some ''save10'') (588 / 5)"

definition numberedDraft :: "objectId \<Rightarrow> string \<Rightarrow> order" where
  "numberedDraft i n = (draftOrder i)\<lparr>orderNumber := n\<rparr>"

section \<open>Properties of the cart\<close>

subsection \<open>Saving\<close>

lemma save_Inr: "save rnd c = Inr c' \<Longrightarrow> c' = preSave rnd c \<and> cart_valid c"
  by (auto simp: save_def split: if_splits)

lemma items_preSave [simp]: "items (preSave rnd c) = items c"
  by (simp add: preSave_def Let_def)

lemma coupon_preSave [simp]:
  "c_couponCode (preSave rnd c) = c_couponCode c"
  "couponDiscount (preSave rnd c) = couponDiscount c"
  by (simp_all add: preSave_def Let_def)

lemma total_preSave:
  "total (preSave rnd c) =
     jsSub rnd (jsAdd rnd (jsAdd rnd (subtotal (preSave rnd c)) (tax (preSave rnd c)))
       (shipping (preSave rnd c))) (couponDiscount c)"
  by (simp add: preSave_def Let_def)

lemma preSave_total_ok: "total_ok rnd (preSave rnd c)"
  by (simp add: total_ok_def preSave_def Let_def)

lemma preSave_idem: "preSave rnd (preSave rnd c) = preSave rnd c"
  by (simp add: preSave_def Let_def split: option.splits)

lemma total_ok_depopulate [simp]: "total_ok rnd (depopulateCart c) = total_ok rnd c"
  by (simp add: total_ok_def depopulateCart_def)

lemma addItem_saved:
  "addItem rnd db productId qty v c = Inr c' \<Longrightarrow>
   \<exists>c0. c' = preSave rnd c0 \<and> cart_valid c0 \<and> c_couponCode c0 = c_couponCode c \<and>
        couponDiscount c0 = couponDiscount c"
  by (auto simp: addItem_def Let_def split: sum.splits option.splits if_splits dest!: save_Inr)

lemma updateItemQuantity_saved:
  "updateItemQuantity rnd productId qty v c = Inr c' \<Longrightarrow>
   \<exists>c0. c' = preSave rnd c0 \<and> cart_valid c0 \<and> c_couponCode c0 = c_couponCode c \<and>
        couponDiscount c0 = couponDiscount c"
  by (auto simp: updateItemQuantity_def split: sum.splits option.splits if_splits
           dest!: save_Inr)

lemma removeItem_saved:
  "removeItem rnd productId v c = Inr c' \<Longrightarrow>
   \<exists>c0. c' = preSave rnd c0 \<and> cart_valid c0 \<and> c_couponCode c0 = c_couponCode c \<and>
        couponDiscount c0 = couponDiscount c"
  by (auto simp: removeItem_def split: sum.splits option.splits if_splits dest!: save_Inr)

lemma applyCoupon_saved:
  "applyCoupon rnd code c = Inr c' \<Longrightarrow> \<exists>c0. c' = preSave rnd c0 \<and> cart_valid c0"
  by (auto simp: applyCoupon_def split: option.splits if_splits dest!: save_Inr)

lemma applyOp_total_ok: "applyOp rnd db op c = Inr c' \<Longrightarrow> total_ok rnd c'"
  by (cases op)
     (auto simp: preSave_total_ok split: if_splits sum.splits
           dest!: addItem_saved updateItemQuantity_saved removeItem_saved applyCoupon_saved)

lemma cartRequest_total_ok: "total_ok rnd c \<Longrightarrow> total_ok rnd (cartRequest rnd c r)"
  by (auto simp: cartRequest_def split: sum.splits dest!: applyOp_total_ok)

lemma save_lines_in_range:
  "save rnd c = Inr c' \<Longrightarrow>
   \<forall>item\<in>set (items c'). 1 \<le> ci_quantity item \<and> ci_quantity item \<le> 10"
  by (auto dest!: save_Inr simp: cart_valid_def cartItem_valid_def list_all_iff)

subsection \<open>The total is the sum of its parts\<close>

text \<open>
  Claim C1. A cart as first created satisfies
  \<open>total = subtotal + tax + shipping - couponDiscount\<close> (the right-hand side evaluated in
  the arithmetic of the code), and a stored cart that satisfies it still does after any
  sequence of addItem, updateItemQuantity, removeItem and applyCoupon requests, whether
  the individual requests succeed or throw. The equation holds also where the hook keeps
  an old subtotal: tax, shipping and total are computed from the subtotal that is stored.
\<close>

theorem cart_total_invariant:
  "total_ok rnd (newCart rnd u) \<and> (total_ok rnd c \<longrightarrow> total_ok rnd (cartRequests rnd c rs))"
proof
  show "total_ok rnd (newCart rnd u)"
    by (simp add: newCart_def preSave_total_ok)
  show "total_ok rnd c \<longrightarrow> total_ok rnd (cartRequests rnd c rs)"
    unfolding cartRequests_def
    by (induction rs arbitrary: c) (simp_all add: cartRequest_total_ok)
qed

text \<open>
  A new cart, then four requests: two lamps are added without a variant (the line's price
  is \<^verbatim>\<open>NaN\<close>, the subtotal stays 0); FLAT15 is refused, the subtotal being below 75; the
  quantity is set to 1; removing product 2 fails. The stored cart ends with one line,
  subtotal 0, no coupon and total 10.
\<close>

theorem cart_total_invariant_witness:
  "total_ok toDouble (newCart toDouble 7) \<and>
   cartRequests toDouble (newCart toDouble 7)
     [([1 \<mapsto> lamp], AddItem 1 2 None), ([1 \<mapsto> lamp], ApplyCoupon ''flat15''),
      ([1 \<mapsto> lamp], UpdateItemQuantity 1 1 None), ([1 \<mapsto> lamp], RemoveItem 2 None)] =
     \<lparr>c_user = 7, items = [lampLine 1], c_couponCode = None, couponDiscount = 0,
      subtotal = 0, tax = 0, shipping = 10, total = 10\<rparr> \<and>
   total_ok toDouble
     \<lparr>c_user = 7, items = [lampLine 1], c_couponCode = None, couponDiscount = 0,
      subtotal = 0, tax = 0, shipping = 10, total = 10\<rparr>"
proof -
  let ?rs = "[([1 \<mapsto> lamp], AddItem 1 2 None), ([1 \<mapsto> lamp], ApplyCoupon ''flat15''),
      ([1 \<mapsto> lamp], UpdateItemQuantity 1 1 None), ([1 \<mapsto> lamp], RemoveItem 2 None)]"
  have start: "total_ok toDouble (newCart toDouble 7)"
    using cart_total_invariant [of toDouble 7] by simp
  have run: "cartRequests toDouble (newCart toDouble 7) ?rs =
     \<lparr>c_user = 7, items = [lampLine 1], c_couponCode = None, couponDiscount = 0,
      subtotal = 0, tax = 0, shipping = 10, total = 10\<rparr>"
    by code_simp
  have "total_ok toDouble (cartRequests toDouble (newCart toDouble 7) ?rs)"
    using cart_total_invariant [of toDouble 7 "newCart toDouble 7" ?rs] start by blast
  with start run show ?thesis
    by simp
qed


subsection \<open>Line quantities after addItem\<close>

lemma findIndex_populated:
  "list_all (\<lambda>item. case ci_product item of Ref i \<Rightarrow> True | _ \<Rightarrow> False) its \<Longrightarrow>
   findIndex (sameLine productId v)
     (map (\<lambda>item. item\<lparr>ci_product := populateRef db (ci_product item)\<rparr>) its) \<noteq> Inr (Some i)"
proof (induction its arbitrary: i)
  case Nil
  then show ?case by simp
next
  case (Cons item its)
  then show ?case
    by (auto simp: sameLine_def populateRef_def split: productRef.splits sum.splits)
qed

lemma depopulateRef_Ref [simp]: "depopulateRef (Ref i) = Ref i"
  by (simp add: depopulateRef_def)

lemma depopulate_populate:
  "list_all (\<lambda>item. case ci_product item of Ref i \<Rightarrow> True | _ \<Rightarrow> False) its \<Longrightarrow>
   map (\<lambda>item. item\<lparr>ci_product := depopulateRef (ci_product item)\<rparr>)
     (map (\<lambda>item. item\<lparr>ci_product := populateRef db (ci_product item)\<rparr>) its) = its"
  by (induction its)
     (auto simp: depopulateRef_def populateRef_def split: productRef.splits)

text \<open>
  Claim C6. When addItem returns a cart, every line of that cart has a quantity between
  1 and 10: the upper bound is the cap of the method, the lower bound the validator of
  the schema. Called on a cart in which the line (product, variant) is found, the method
  sets that line's quantity to the sum capped at 10; called where no line is found, it
  appends a line of quantity \<open>min quantity 10\<close>, and it succeeds whenever the product is
  active and in stock and the resulting cart passes the validators.

  The claim's "existing line" is not what POST /api/cart/add finds. The route loads the
  cart populated, the comparison of the method is then false on every line, and a second
  request for the same product and variant appends a second line instead of raising the
  quantity of the first (last conjunct).
\<close>

theorem addItem_quantity_range:
  "(addItem rnd db productId qty v c = Inr c' \<longrightarrow>
      (\<forall>item\<in>set (items c'). 1 \<le> ci_quantity item \<and> ci_quantity item \<le> 10)) \<and>
   (findIndex (sameLine productId v) (items c) = Inr (Some i) \<longrightarrow>
      addItem rnd db productId qty v c =
        save rnd (c\<lparr>items := (items c)[i := (items c ! i)
          \<lparr>ci_quantity := min (ci_quantity (items c ! i) + qty) 10\<rparr>]\<rparr>)) \<and>
   (findIndex (sameLine productId v) (items c) = Inr None \<and> db productId = Some p \<and>
    isActive p \<and> qty \<le> countInStock p \<longrightarrow>
      addItem rnd db productId qty v c =
        save rnd (c\<lparr>items := items c @
          [\<lparr>ci_product = Ref productId, ci_name = p_name p, ci_image = firstImage p,
            ci_price = p_price p, ci_quantity = min qty 10, ci_variant = v\<rparr>]\<rparr>)) \<and>
   (cart_valid c0 \<longrightarrow> (\<exists>c1. save rnd c0 = Inr c1 \<and> items c1 = items c0)) \<and>
   (storedCart c \<and> applyOp rnd db (AddItem productId qty v) c = Inr c' \<longrightarrow>
      (\<exists>p. db productId = Some p \<and>
         items c' = items c @
           [\<lparr>ci_product = Ref productId, ci_name = p_name p, ci_image = firstImage p,
             ci_price = p_price p, ci_quantity = qty, ci_variant = v\<rparr>]))"
proof (intro conjI impI)
  assume "addItem rnd db productId qty v c = Inr c'"
  then show "\<forall>item\<in>set (items c'). 1 \<le> ci_quantity item \<and> ci_quantity item \<le> 10"
    by (auto simp: addItem_def Let_def split: sum.splits option.splits if_splits
             dest!: save_lines_in_range)
next
  assume "findIndex (sameLine productId v) (items c) = Inr (Some i)"
  then show "addItem rnd db productId qty v c =
        save rnd (c\<lparr>items := (items c)[i := (items c ! i)
          \<lparr>ci_quantity := min (ci_quantity (items c ! i) + qty) 10\<rparr>]\<rparr>)"
    by (simp add: addItem_def Let_def min_def)
next
  assume "findIndex (sameLine productId v) (items c) = Inr None \<and> db productId = Some p \<and>
    isActive p \<and> qty \<le> countInStock p"
  then show "addItem rnd db productId qty v c =
        save rnd (c\<lparr>items := items c @
          [\<lparr>ci_product = Ref productId, ci_name = p_name p, ci_image = firstImage p,
            ci_price = p_price p, ci_quantity = min qty 10, ci_variant = v\<rparr>]\<rparr>)"
    by (simp add: addItem_def)
next
  assume "cart_valid c0"
  then show "\<exists>c1. save rnd c0 = Inr c1 \<and> items c1 = items c0"
    by (simp add: save_def)
next
  assume a: "storedCart c \<and> applyOp rnd db (AddItem productId qty v) c = Inr c'"
  then have st: "list_all (\<lambda>item. case ci_product item of Ref i \<Rightarrow> True | _ \<Rightarrow> False) (items c)"
    by (simp add: storedCart_def)
  from a obtain c1 where q: "1 \<le> qty" "qty \<le> 10"
    and add: "addItem rnd db productId qty v (populateCart db c) = Inr c1"
    and c': "c' = depopulateCart c1"
    by (auto split: if_splits sum.splits)
  have nf: "findIndex (sameLine productId v) (items (populateCart db c)) \<noteq> Inr (Some i)" for i
    using findIndex_populated [OF st] by (simp add: populateCart_def)
  from add nf obtain p where p: "db productId = Some p"
    and c1: "items c1 = items (populateCart db c) @
           [\<lparr>ci_product = Ref productId, ci_name = p_name p, ci_image = firstImage p,
             ci_price = p_price p, ci_quantity = min qty 10, ci_variant = v\<rparr>]"
    by (auto simp: addItem_def Let_def split: sum.splits option.splits if_splits
             dest!: save_Inr)
  from c1 c' q have "items c' = items c @
           [\<lparr>ci_product = Ref productId, ci_name = p_name p, ci_image = firstImage p,
             ci_price = p_price p, ci_quantity = qty, ci_variant = v\<rparr>]"
    by (simp add: depopulateCart_def populateCart_def depopulate_populate [OF st]
          del: map_map)
  with p show "\<exists>p. db productId = Some p \<and>
         items c' = items c @
           [\<lparr>ci_product = Ref productId, ci_name = p_name p, ci_image = firstImage p,
             ci_price = p_price p, ci_quantity = qty, ci_variant = v\<rparr>]"
    by blast
qed

text \<open>
  Two requests to add two lamps, on a new cart: the stored cart ends with two lines of
  quantity 2 for the same product, where the claim has one line of quantity 4. The method
  called on the stored (unpopulated) cart would give that one line. A new line asked with
  quantity 12 is stored with 10.
\<close>

theorem addItem_quantity_range_witness:
  "applyOp toDouble [1 \<mapsto> lamp] (AddItem 1 2 None) (newCart toDouble 7) =
     Inr \<lparr>c_user = 7, items = [lampLine 2], c_couponCode = None, couponDiscount = 0,
          subtotal = 0, tax = 0, shipping = 10, total = 10\<rparr> \<and>
   applyOp toDouble [1 \<mapsto> lamp] (AddItem 1 2 None)
     \<lparr>c_user = 7, items = [lampLine 2], c_couponCode = None, couponDiscount = 0,
      subtotal = 0, tax = 0, shipping = 10, total = 10\<rparr> =
     Inr \<lparr>c_user = 7, items = [lampLine 2, lampLine 2], c_couponCode = None,
          couponDiscount = 0, subtotal = 0, tax = 0, shipping = 10, total = 10\<rparr> \<and>
   items \<lparr>c_user = 7, items = [lampLine 2, lampLine 2], c_couponCode = None,
          couponDiscount = 0, subtotal = 0, tax = 0, shipping = 10, total = 10\<rparr> =
     [lampLine 2] @
     [\<lparr>ci_product = Ref 1, ci_name = p_name lamp, ci_image = firstImage lamp,
       ci_price = p_price lamp, ci_quantity = 2, ci_variant = None\<rparr>] \<and>
   addItem toDouble [1 \<mapsto> lamp] 1 2 None
     \<lparr>c_user = 7, items = [lampLine 2], c_couponCode = None, couponDiscount = 0,
      subtotal = 0, tax = 0, shipping = 10, total = 10\<rparr> =
     Inr \<lparr>c_user = 7, items = [lampLine 4], c_couponCode = None, couponDiscount = 0,
          subtotal = 0, tax = 0, shipping = 10, total = 10\<rparr> \<and>
   addItem toDouble [1 \<mapsto> lamp\<lparr>countInStock := 20\<rparr>] 1 12 None (newCart toDouble 7) =
     Inr \<lparr>c_user = 7, items = [lampLine 10], c_couponCode = None, couponDiscount = 0,
          subtotal = 0, tax = 0, shipping = 10, total = 10\<rparr> \<and>
   list_all (\<lambda>item. 1 \<le> ci_quantity item \<and> ci_quantity item \<le> 10) [lampLine 10]"
proof -
  let ?c1 = "\<lparr>c_user = 7, items = [lampLine 2], c_couponCode = None, couponDiscount = 0,
      subtotal = 0, tax = 0, shipping = 10, total = 10\<rparr>"
  let ?c2 = "\<lparr>c_user = 7, items = [lampLine 2, lampLine 2], c_couponCode = None,
          couponDiscount = 0, subtotal = 0, tax = 0, shipping = 10, total = 10\<rparr>"
  let ?c10 = "\<lparr>c_user = 7, items = [lampLine 10], c_couponCode = None, couponDiscount = 0,
          subtotal = 0, tax = 0, shipping = 10, total = 10\<rparr>"
  have r1: "applyOp toDouble [1 \<mapsto> lamp] (AddItem 1 2 None) (newCart toDouble 7) = Inr ?c1"
    by code_simp
  have r2: "applyOp toDouble [1 \<mapsto> lamp] (AddItem 1 2 None) ?c1 = Inr ?c2"
    by code_simp
  have m: "addItem toDouble [1 \<mapsto> lamp] 1 2 None ?c1 =
     Inr \<lparr>c_user = 7, items = [lampLine 4], c_couponCode = None, couponDiscount = 0,
          subtotal = 0, tax = 0, shipping = 10, total = 10\<rparr>"
    by code_simp
  have big: "addItem toDouble [1 \<mapsto> lamp\<lparr>countInStock := 20\<rparr>] 1 12 None
     (newCart toDouble 7) = Inr ?c10"
    by code_simp
  have st: "storedCart ?c1"
    by code_simp
  have range: "\<forall>item\<in>set (items ?c10). 1 \<le> ci_quantity item \<and> ci_quantity item \<le> 10"
    using addItem_quantity_range [of toDouble "[1 \<mapsto> lamp\<lparr>countInStock := 20\<rparr>]" 1 12 None
        "newCart toDouble 7" ?c10] big
    by blast
  have "\<exists>p. [1 \<mapsto> lamp] (1::objectId) = Some p \<and>
         items ?c2 = items ?c1 @
           [\<lparr>ci_product = Ref 1, ci_name = p_name p, ci_image = firstImage p,
             ci_price = p_price p, ci_quantity = 2, ci_variant = None\<rparr>]"
    using addItem_quantity_range [of toDouble "[1 \<mapsto> lamp]" 1 2 None ?c1 ?c2] r2 st
    by blast
  with range have "list_all (\<lambda>item. 1 \<le> ci_quantity item \<and> ci_quantity item \<le> 10) [lampLine 10]"
    "items ?c2 = [lampLine 2] @
     [\<lparr>ci_product = Ref 1, ci_name = p_name lamp, ci_image = firstImage lamp,
       ci_price = p_price lamp, ci_quantity = 2, ci_variant = None\<rparr>]"
    by (simp_all add: list_all_iff)
  with r1 r2 m big show ?thesis
    by blast
qed


subsection \<open>The recomputation\<close>

lemma addLine_no_variant: "ci_variant item = None \<Longrightarrow> addLine rnd acc item = None"
  by (simp add: addLine_def itemPrice_def split: option.splits)

lemma foldl_addLine_None: "foldl (addLine rnd) None its = None"
  by (induction its) (simp_all add: addLine_def)

lemma foldl_addLine_stale:
  "list_ex (\<lambda>item. ci_variant item = None) its \<Longrightarrow> foldl (addLine rnd) acc its = None"
  by (induction its arbitrary: acc) (auto simp: addLine_no_variant foldl_addLine_None)

lemma foldl_addLine_Some:
  "list_all (\<lambda>item. ci_variant item \<noteq> None) its \<Longrightarrow>
   \<exists>s. foldl (addLine rnd) (Some a) its = Some s"
  by (induction its arbitrary: a) (auto simp: addLine_def itemPrice_def)

lemma foldl_addLine_exact:
  "list_all (\<lambda>item. ci_variant item \<noteq> None) its \<Longrightarrow>
   foldl (addLine (\<lambda>x. x)) (Some a) its =
     Some (a + (\<Sum>item\<leftarrow>its.
        (ci_price item + (case ci_variant item of Some v \<Rightarrow> additionalPrice v | None \<Rightarrow> 0)) *
        of_int (ci_quantity item)))"
  by (induction its arbitrary: a)
     (auto simp: addLine_def itemPrice_def jsAdd_def jsMul_def add.assoc)

lemma addLine_product: "addLine rnd acc (item\<lparr>ci_product := x\<rparr>) = addLine rnd acc item"
  by (simp add: addLine_def itemPrice_def split: option.splits)

lemma preSave_stale:
  "list_ex (\<lambda>item. ci_variant item = None) (items c) \<Longrightarrow>
   subtotal (preSave rnd c) = subtotal c"
  by (simp add: preSave_def Let_def calcSubtotal_def foldl_addLine_stale)

lemma calcSubtotal_product:
  "calcSubtotal rnd (map (\<lambda>item. item\<lparr>ci_product := f (ci_product item)\<rparr>) its) =
   calcSubtotal rnd its"
proof -
  have "foldl (addLine rnd) acc (map (\<lambda>item. item\<lparr>ci_product := f (ci_product item)\<rparr>) its) =
      foldl (addLine rnd) acc its" for acc
    by (induction its arbitrary: acc) (simp_all add: addLine_product)
  then show ?thesis
    by (simp add: calcSubtotal_def)
qed

lemma preSave_depopulate: "preSave rnd (depopulateCart c) = depopulateCart (preSave rnd c)"
  by (cases "calcSubtotal rnd (items c)")
     (simp_all add: preSave_def depopulateCart_def calcSubtotal_product Let_def)

lemma applyOp_fixed: "applyOp rnd db op c = Inr c' \<Longrightarrow> preSave rnd c' = c'"
  by (cases op)
     (auto simp: preSave_idem preSave_depopulate split: if_splits sum.splits
           dest!: addItem_saved updateItemQuantity_saved removeItem_saved applyCoupon_saved)

lemma save10:
  "trim ''SAVE10'' = ''SAVE10''"
  "coupons (toUpperCase ''SAVE10'') =
     Some \<lparr>cp_type = Percentage, cp_value = 10, minAmount = 50\<rparr>"
  by code_simp+

text \<open>
  Claim C8 gives the rule of the hook and one scenario. The rule for tax, shipping and
  total is the code's, computed from the subtotal the cart holds after the hook's first
  assignment. The subtotal is the sum over the lines only when every line carries a
  variant: a line stored without one makes the sum \<^verbatim>\<open>NaN\<close>, and the cart keeps the
  subtotal it had. That is the case of the claim's scenario: one lamp of price 60 added
  without a variant to a new cart leaves the subtotal at 0, and SAVE10 is then refused
  for a subtotal below 50, where the claim has subtotal 60 and discount 6. The cart
  returned by every successful mutation is a fixed point of the hook.
\<close>

theorem recompute_rule:
  "(list_ex (\<lambda>item. ci_variant item = None) (items c) \<longrightarrow>
      subtotal (preSave rnd c) = subtotal c) \<and>
   (list_all (\<lambda>item. ci_variant item \<noteq> None) (items c) \<longrightarrow>
      calcSubtotal rnd (items c) = Some (subtotal (preSave rnd c)) \<and>
      subtotal (preSave (\<lambda>x. x) c) =
        (\<Sum>item\<leftarrow>items c.
           (ci_price item + (case ci_variant item of Some v \<Rightarrow> additionalPrice v | None \<Rightarrow> 0)) *
           of_int (ci_quantity item))) \<and>
   tax (preSave rnd c) = jsMul rnd (subtotal (preSave rnd c)) (taxRate rnd) \<and>
   shipping (preSave rnd c) = (if subtotal (preSave rnd c) \<ge> 100 then 0 else 10) \<and>
   total (preSave rnd c) =
     jsSub rnd (jsAdd rnd (jsAdd rnd (subtotal (preSave rnd c)) (tax (preSave rnd c)))
       (shipping (preSave rnd c))) (couponDiscount c) \<and>
   (applyOp rnd db op c = Inr c' \<longrightarrow> preSave rnd c' = c') \<and>
   (clearCart rnd c = Inr c' \<longrightarrow> preSave rnd c' = c') \<and>
   (removeCoupon rnd c = Inr c' \<longrightarrow> preSave rnd c' = c') \<and>
   (applyOp rnd [1 \<mapsto> lamp] (AddItem 1 1 None) (newCart rnd u) = Inr c1 \<longrightarrow>
      items c1 = [lampLine 1] \<and> subtotal c1 = 0 \<and>
      applyOp rnd db (ApplyCoupon ''SAVE10'') c1 = Inl (MinimumOrderAmountRequired 50))"
proof (intro conjI impI)
  assume "list_ex (\<lambda>item. ci_variant item = None) (items c)"
  then show "subtotal (preSave rnd c) = subtotal c"
    by (rule preSave_stale)
next
  assume all: "list_all (\<lambda>item. ci_variant item \<noteq> None) (items c)"
  then obtain s where "foldl (addLine rnd) (Some 0) (items c) = Some s"
    using foldl_addLine_Some by blast
  then show "calcSubtotal rnd (items c) = Some (subtotal (preSave rnd c))"
    by (simp add: preSave_def Let_def calcSubtotal_def)
  from all show "subtotal (preSave (\<lambda>x. x) c) =
        (\<Sum>item\<leftarrow>items c.
           (ci_price item + (case ci_variant item of Some v \<Rightarrow> additionalPrice v | None \<Rightarrow> 0)) *
           of_int (ci_quantity item))"
    by (simp add: preSave_def Let_def calcSubtotal_def foldl_addLine_exact)
next
  show "tax (preSave rnd c) = jsMul rnd (subtotal (preSave rnd c)) (taxRate rnd)"
    by (simp add: preSave_def Let_def)
  show "shipping (preSave rnd c) = (if subtotal (preSave rnd c) \<ge> 100 then 0 else 10)"
    by (simp add: preSave_def Let_def)
  show "total (preSave rnd c) =
     jsSub rnd (jsAdd rnd (jsAdd rnd (subtotal (preSave rnd c)) (tax (preSave rnd c)))
       (shipping (preSave rnd c))) (couponDiscount c)"
    by (rule total_preSave)
next
  assume "applyOp rnd db op c = Inr c'"
  then show "preSave rnd c' = c'"
    by (rule applyOp_fixed)
next
  assume "clearCart rnd c = Inr c'"
  then show "preSave rnd c' = c'"
    by (auto simp: clearCart_def preSave_idem dest!: save_Inr)
next
  assume "removeCoupon rnd c = Inr c'"
  then show "preSave rnd c' = c'"
    by (auto simp: removeCoupon_def preSave_idem dest!: save_Inr)
next
  assume run: "applyOp rnd [1 \<mapsto> lamp] (AddItem 1 1 None) (newCart rnd u) = Inr c1"
  let ?c0 = "(newCart rnd u)\<lparr>items := [lampLine 1]\<rparr>"
  have new: "items (newCart rnd u) = []" "subtotal (newCart rnd u) = 0"
    by (simp_all add: newCart_def preSave_def calcSubtotal_def Let_def)
  have "addItem rnd [1 \<mapsto> lamp] 1 1 None (populateCart [1 \<mapsto> lamp] (newCart rnd u)) =
      save rnd ?c0"
    by (simp add: addItem_def populateCart_def new lamp_def lampLine_def firstImage_def)
  with run have c1: "c1 = depopulateCart (preSave rnd ?c0)"
    by (auto split: sum.splits dest!: save_Inr)
  then show i: "items c1 = [lampLine 1]"
    by (simp add: depopulateCart_def lampLine_def)
  have "subtotal (preSave rnd ?c0) = subtotal ?c0"
    by (rule preSave_stale) (simp add: lampLine_def)
  with c1 show s: "subtotal c1 = 0"
    by (simp add: depopulateCart_def new)
  from i s show "applyOp rnd db (ApplyCoupon ''SAVE10'') c1 =
      Inl (MinimumOrderAmountRequired 50)"
    by (simp add: save10 applyCoupon_def)
qed

text \<open>
  The scenario of the claim, through the routes. Without a variant: subtotal 0, no coupon,
  total 10. With a variant of additional price 0 the cart holds what the claim says: 60,
  6, and the doubles that print as 4.8 and 68.8.
\<close>

theorem recompute_rule_witness:
  "cartRequests toDouble (newCart toDouble 7)
     [([1 \<mapsto> lamp], AddItem 1 1 None), ([1 \<mapsto> lamp], ApplyCoupon ''SAVE10'')] =
     \<lparr>c_user = 7, items = [lampLine 1], c_couponCode = None, couponDiscount = 0,
      subtotal = 0, tax = 0, shipping = 10, total = 10\<rparr> \<and>
   applyOp toDouble [1 \<mapsto> lamp] (ApplyCoupon ''SAVE10'')
     \<lparr>c_user = 7, items = [lampLine 1], c_couponCode = None, couponDiscount = 0,
      subtotal = 0, tax = 0, shipping = 10, total = 10\<rparr> =
     Inl (MinimumOrderAmountRequired 50) \<and>
   cartRequests toDouble (newCart toDouble 7)
     [([1 \<mapsto> lamp], AddItem 1 1 (Some plain)), ([1 \<mapsto> lamp], ApplyCoupon ''SAVE10'')] =
     \<lparr>c_user = 7, items = [(lampLine 1)\<lparr>ci_variant := Some plain\<rparr>],
      c_couponCode = Some ''SAVE10'', couponDiscount = 6, subtotal = 60,
      tax = 5404319552844595 / 1125899906842624, shipping = 10,
      total = 4841369599423283 / 70368744177664\<rparr>"
proof -
  let ?c1 = "\<lparr>c_user = 7, items = [lampLine 1], c_couponCode = None, couponDiscount = 0,
      subtotal = 0, tax = 0, shipping = 10, total = 10\<rparr>"
  have add: "applyOp toDouble [1 \<mapsto> lamp] (AddItem 1 1 None) (newCart toDouble 7) = Inr ?c1"
    by code_simp
  have refused: "applyOp toDouble [1 \<mapsto> lamp] (ApplyCoupon ''SAVE10'') ?c1 =
      Inl (MinimumOrderAmountRequired 50)"
    using recompute_rule [of "newCart toDouble 7" toDouble "[1 \<mapsto> lamp]" "AddItem 1 1 None"
        ?c1 7 ?c1] add
    by blast
  from add refused have run: "cartRequests toDouble (newCart toDouble 7)
     [([1 \<mapsto> lamp], AddItem 1 1 None), ([1 \<mapsto> lamp], ApplyCoupon ''SAVE10'')] = ?c1"
    by (simp add: cartRequests_def cartRequest_def)
  have variant: "cartRequests toDouble (newCart toDouble 7)
     [([1 \<mapsto> lamp], AddItem 1 1 (Some plain)), ([1 \<mapsto> lamp], ApplyCoupon ''SAVE10'')] =
     \<lparr>c_user = 7, items = [(lampLine 1)\<lparr>ci_variant := Some plain\<rparr>],
      c_couponCode = Some ''SAVE10'', couponDiscount = 6, subtotal = 60,
      tax = 5404319552844595 / 1125899906842624, shipping = 10,
      total = 4841369599423283 / 70368744177664\<rparr>"
    by code_simp
  from run refused variant show ?thesis
    by blast
qed

subsection \<open>Item mutations leave the coupon alone\<close>

text \<open>
  Claim C9. addItem, updateItemQuantity and removeItem return a cart whose couponCode and
  couponDiscount are those of the cart they were called on, and whose total is computed
  with that old discount: the discount is not resolved again, whatever the new subtotal
  is. clearCart and removeCoupon set the code to null and the discount to 0.
\<close>

theorem coupon_fields_frame:
  "(addItem rnd db productId qty v c = Inr c' \<longrightarrow>
      c_couponCode c' = c_couponCode c \<and> couponDiscount c' = couponDiscount c \<and>
      total c' =
        jsSub rnd (jsAdd rnd (jsAdd rnd (subtotal c') (tax c')) (shipping c')) (couponDiscount c)) \<and>
   (updateItemQuantity rnd productId qty v c = Inr c' \<longrightarrow>
      c_couponCode c' = c_couponCode c \<and> couponDiscount c' = couponDiscount c \<and>
      total c' =
        jsSub rnd (jsAdd rnd (jsAdd rnd (subtotal c') (tax c')) (shipping c')) (couponDiscount c)) \<and>
   (removeItem rnd productId v c = Inr c' \<longrightarrow>
      c_couponCode c' = c_couponCode c \<and> couponDiscount c' = couponDiscount c \<and>
      total c' =
        jsSub rnd (jsAdd rnd (jsAdd rnd (subtotal c') (tax c')) (shipping c')) (couponDiscount c)) \<and>
   (clearCart rnd c = Inr c' \<longrightarrow> c_couponCode c' = None \<and> couponDiscount c' = 0) \<and>
   (removeCoupon rnd c = Inr c' \<longrightarrow> c_couponCode c' = None \<and> couponDiscount c' = 0)"
proof (intro conjI impI)
  assume "addItem rnd db productId qty v c = Inr c'"
  then obtain c0 where c0: "c' = preSave rnd c0" "c_couponCode c0 = c_couponCode c"
      "couponDiscount c0 = couponDiscount c"
    by (auto dest!: addItem_saved)
  show "c_couponCode c' = c_couponCode c" "couponDiscount c' = couponDiscount c"
    "total c' =
      jsSub rnd (jsAdd rnd (jsAdd rnd (subtotal c') (tax c')) (shipping c')) (couponDiscount c)"
    using c0 total_preSave [of rnd c0] by simp_all
next
  assume "updateItemQuantity rnd productId qty v c = Inr c'"
  then obtain c0 where c0: "c' = preSave rnd c0" "c_couponCode c0 = c_couponCode c"
      "couponDiscount c0 = couponDiscount c"
    by (auto dest!: updateItemQuantity_saved)
  show "c_couponCode c' = c_couponCode c" "couponDiscount c' = couponDiscount c"
    "total c' =
      jsSub rnd (jsAdd rnd (jsAdd rnd (subtotal c') (tax c')) (shipping c')) (couponDiscount c)"
    using c0 total_preSave [of rnd c0] by simp_all
next
  assume "removeItem rnd productId v c = Inr c'"
  then obtain c0 where c0: "c' = preSave rnd c0" "c_couponCode c0 = c_couponCode c"
      "couponDiscount c0 = couponDiscount c"
    by (auto dest!: removeItem_saved)
  show "c_couponCode c' = c_couponCode c" "couponDiscount c' = couponDiscount c"
    "total c' =
      jsSub rnd (jsAdd rnd (jsAdd rnd (subtotal c') (tax c')) (shipping c')) (couponDiscount c)"
    using c0 total_preSave [of rnd c0] by simp_all
next
  assume "clearCart rnd c = Inr c'"
  then show "c_couponCode c' = None" "couponDiscount c' = 0"
    by (auto simp: clearCart_def dest!: save_Inr)
next
  assume "removeCoupon rnd c = Inr c'"
  then show "c_couponCode c' = None" "couponDiscount c' = 0"
    by (auto simp: removeCoupon_def dest!: save_Inr)
qed

text \<open>
  A cart with one line of 60 and SAVE10 applied (discount 6, minimum 50): after the line
  is removed the subtotal is 0, the code and the discount of 6 are still stored, and the
  total is 0 + 0 + 10 - 6 = 4. clearCart on the same cart drops both.
\<close>

theorem coupon_fields_frame_witness:
  "removeItem toDouble 1 None
     \<lparr>c_user = 7, items = [lampLine 1], c_couponCode = Some ''SAVE10'', couponDiscount = 6,
      subtotal = 60, tax = 24 / 5, shipping = 10, total = 344 / 5\<rparr> =
   Inr \<lparr>c_user = 7, items = [], c_couponCode = Some ''SAVE10'', couponDiscount = 6,
        subtotal = 0, tax = 0, shipping = 10, total = 4\<rparr> \<and>
   map_option minAmount (coupons ''SAVE10'') = Some 50 \<and>
   clearCart toDouble
     \<lparr>c_user = 7, items = [lampLine 1], c_couponCode = Some ''SAVE10'', couponDiscount = 6,
      subtotal = 60, tax = 24 / 5, shipping = 10, total = 344 / 5\<rparr> =
   Inr \<lparr>c_user = 7, items = [], c_couponCode = None, couponDiscount = 0,
        subtotal = 0, tax = 0, shipping = 10, total = 10\<rparr> \<and>
   c_couponCode \<lparr>c_user = 7, items = [], c_couponCode = Some ''SAVE10'', couponDiscount = 6,
        subtotal = 0, tax = 0, shipping = 10, total = 4\<rparr> = Some ''SAVE10'' \<and>
   couponDiscount \<lparr>c_user = 7, items = [], c_couponCode = Some ''SAVE10'', couponDiscount = 6,
        subtotal = 0, tax = 0, shipping = 10, total = 4\<rparr> = 6"
proof -
  let ?c = "\<lparr>c_user = 7, items = [lampLine 1], c_couponCode = Some ''SAVE10'',
      couponDiscount = 6, subtotal = 60, tax = 24 / 5, shipping = 10, total = 344 / 5\<rparr>"
  let ?r = "\<lparr>c_user = 7, items = [], c_couponCode = Some ''SAVE10'', couponDiscount = 6,
        subtotal = 0, tax = 0, shipping = 10, total = 4\<rparr>"
  have rm: "removeItem toDouble 1 None ?c = Inr ?r"
    by code_simp
  have cl: "clearCart toDouble ?c = Inr \<lparr>c_user = 7, items = [], c_couponCode = None,
        couponDiscount = 0, subtotal = 0, tax = 0, shipping = 10, total = 10\<rparr>"
    by code_simp
  have mn: "map_option minAmount (coupons ''SAVE10'') = Some 50"
    by code_simp
  have "c_couponCode ?r = c_couponCode ?c \<and> couponDiscount ?r = couponDiscount ?c"
    using coupon_fields_frame [of toDouble Map.empty 1 0 None ?c ?r] rm by blast
  then have "c_couponCode ?r = Some ''SAVE10'' \<and> couponDiscount ?r = 6"
    by simp
  with rm cl mn show ?thesis
    by blast
qed


section \<open>Properties of orders\<close>

lemmas order_hooks = saveOrder_def initHistoryHook_def statusHistoryHook_def
  orderNumberHook_def Let_def

lemma saveNewOrder_Inr:
  "saveNewOrder coll now this = Inr x \<Longrightarrow> x = saveOrder coll now None this \<and> order_valid this"
  by (auto simp: saveNewOrder_def split: if_splits)

lemma processItems_fold:
  "processItems rnd db its price acc = Inr (price', acc') \<Longrightarrow>
   price =
     foldl (\<lambda>a item. jsAdd rnd a (jsMul rnd (oi_price item) (of_int (oi_quantity item)))) 0 acc \<Longrightarrow>
   price' =
     foldl (\<lambda>a item. jsAdd rnd a (jsMul rnd (oi_price item) (of_int (oi_quantity item)))) 0 acc'"
proof (induction its arbitrary: price acc)
  case Nil
  then show ?case by auto
next
  case (Cons item rest)
  from Cons.prems(1) obtain p where
    run: "processItems rnd db rest
       (jsAdd rnd price (jsMul rnd (p_price p) (of_int (ri_quantity item))))
       (acc @ [\<lparr>oi_product = ri_product item, oi_name = p_name p,
                 oi_image = firstImage p, oi_price = p_price p,
                 oi_quantity = ri_quantity item, oi_variant = ri_variant item\<rparr>]) =
       Inr (price', acc')"
    by (auto split: option.splits if_splits)
  have "jsAdd rnd price (jsMul rnd (p_price p) (of_int (ri_quantity item))) =
      foldl (\<lambda>a item. jsAdd rnd a (jsMul rnd (oi_price item) (of_int (oi_quantity item)))) 0
        (acc @ [\<lparr>oi_product = ri_product item, oi_name = p_name p,
                 oi_image = firstImage p, oi_price = p_price p,
                 oi_quantity = ri_quantity item, oi_variant = ri_variant item\<rparr>])"
    using Cons.prems(2) by simp
  with run show ?case
    by (rule Cons.IH)
qed


lemma checkoutDocument_Inr:
  assumes "checkoutDocument rnd st newId userId req = Inr doc"
  shows "orderNumber doc = []" "statusHistory doc = []" "status doc = Pending"
    "totalPrice doc =
       jsSub rnd (jsAdd rnd (jsAdd rnd (itemsPrice doc) (taxPrice doc)) (shippingPrice doc))
         (discountAmount doc)"
    "itemsPrice doc =
       foldl (\<lambda>a item. jsAdd rnd a (jsMul rnd (oi_price item) (of_int (oi_quantity item)))) 0
         (orderItems doc)"
proof -
  from assms obtain price its where
    p: "processItems rnd (products st) (r_orderItems req) 0 [] = Inr (price, its)"
    and doc: "doc = newOrder newId userId its (r_paymentMethod req) price
        (jsMul rnd price (taxRate rnd)) (if price \<ge> 100 then 0 else 10)
        (orderDiscount rnd (r_couponCode req) price) (r_couponCode req)
        (jsSub rnd (jsAdd rnd (jsAdd rnd price (jsMul rnd price (taxRate rnd)))
           (if price \<ge> 100 then 0 else 10)) (orderDiscount rnd (r_couponCode req) price))"
    by (auto simp: checkoutDocument_def Let_def split: if_splits sum.splits prod.splits)
  from doc show "orderNumber doc = []" "statusHistory doc = []" "status doc = Pending"
    "totalPrice doc =
       jsSub rnd (jsAdd rnd (jsAdd rnd (itemsPrice doc) (taxPrice doc)) (shippingPrice doc))
         (discountAmount doc)"
    by (simp_all add: newOrder_def)
  from processItems_fold [OF p] doc show "itemsPrice doc =
       foldl (\<lambda>a item. jsAdd rnd a (jsMul rnd (oi_price item) (of_int (oi_quantity item)))) 0
         (orderItems doc)"
    by (simp add: newOrder_def)
qed

lemma findById_shopWith: "o_id x = i \<Longrightarrow> findById (orders (shopWith x)) i = Some x"
  by (simp add: findById_def shopWith_def)

subsection \<open>Order totals\<close>



subsection \<open>Cancelling a shipped or delivered order\<close>

text \<open>
  Claim C5. For an order whose status is shipped or delivered, the method cancelOrder
  throws \<^verbatim>\<open>'Cannot cancel shipped or delivered orders'\<close>; the cancel route then answers
  with an error and returns the store it was given (so the order's status, its
  statusHistory and every product's stock are as before), and when the caller owns the
  order the error is that invalid-transition error.
\<close>

theorem cancel_shipped_rejected:
  "status ord \<in> {Shipped, Delivered} \<longrightarrow>
     cancelOrder coll now reason cancelledBy ord = Inl CannotCancelShippedOrDelivered \<and>
     (findById (orders st) i = Some ord \<longrightarrow>
        (\<exists>e. cancelOrderRoute st now userId i r = (Inl e, st)) \<and>
        (o_user ord = userId \<longrightarrow>
           cancelOrderRoute st now userId i r = (Inl CannotCancelShippedOrDelivered, st)))"
  by (auto simp: cancelOrder_def cancelOrderRoute_def)

theorem cancel_shipped_rejected_witness:
  "fst (updateOrderStatus (shopWith lampOrder) (onDay 9) 1 100
     \<lparr>su_status = Shipped, su_trackingNumber = Some ''T1'', su_carrier = None,
      su_note = None\<rparr>) = Inr shippedOrder \<and>
   status shippedOrder = Shipped \<and>
   cancelOrder [shippedOrder] (onDay 10) ''Cancelled by user'' 7 shippedOrder =
     Inl CannotCancelShippedOrDelivered \<and>
   cancelOrderRoute (shopWith shippedOrder) (onDay 10) 7 100 None =
     (Inl CannotCancelShippedOrDelivered, shopWith shippedOrder)"
proof -
  have ship: "fst (updateOrderStatus (shopWith lampOrder) (onDay 9) 1 100
     \<lparr>su_status = Shipped, su_trackingNumber = Some ''T1'', su_carrier = None,
      su_note = None\<rparr>) = Inr shippedOrder"
    by code_simp
  have st: "status shippedOrder = Shipped" and own: "o_user shippedOrder = 7"
    by (simp_all add: shippedOrder_def lampOrder_def)
  have found: "findById (orders (shopWith shippedOrder)) 100 = Some shippedOrder"
    by (rule findById_shopWith) (simp add: shippedOrder_def lampOrder_def)
  have "cancelOrder [shippedOrder] (onDay 10) ''Cancelled by user'' 7 shippedOrder =
     Inl CannotCancelShippedOrDelivered \<and>
   cancelOrderRoute (shopWith shippedOrder) (onDay 10) 7 100 None =
     (Inl CannotCancelShippedOrDelivered, shopWith shippedOrder)"
    using cancel_shipped_rejected [of shippedOrder "[shippedOrder]" "onDay 10"
        "''Cancelled by user''" 7 "shopWith shippedOrder" 100 7 None] st own found
    by simp
  with ship st show ?thesis
    by blast
qed

subsection \<open>Marking an order paid\<close>

text \<open>
  Claim C10. updatePaymentStatus always sets isPaid, paidAt and paymentResult, and moves
  the status to processing only from pending. The pay route, given a well-formed body,
  an existing order and its owner, rejects only an order that is already paid; so for an
  unpaid cancelled order it answers with the order marked paid and still cancelled.
\<close>

theorem payment_marks_paid:
  "isPaid (updatePaymentStatus coll now pr ord) \<and>
   paidAt (updatePaymentStatus coll now pr ord) = Some now \<and>
   o_paymentResult (updatePaymentStatus coll now pr ord) = Some pr \<and>
   status (updatePaymentStatus coll now pr ord) =
     (if status ord = Pending then Processing else status ord) \<and>
   (findById (orders st) i = Some ord \<and> o_user ord = userId \<and> pr_id pr \<noteq> [] \<and>
    pr_status pr \<noteq> [] \<and> \<not> isPaid ord \<longrightarrow>
      payOrder st now userId i pr =
        (Inr (updatePaymentStatus (orders st) now pr ord),
         st\<lparr>orders := putOrder (updatePaymentStatus (orders st) now pr ord) (orders st)\<rparr>)) \<and>
   (findById (orders st) i = Some ord \<and> o_user ord = userId \<and> pr_id pr \<noteq> [] \<and>
    pr_status pr \<noteq> [] \<and> \<not> isPaid ord \<and> status ord = Cancelled \<longrightarrow>
      (\<exists>saved st'. payOrder st now userId i pr = (Inr saved, st') \<and>
         isPaid saved \<and> status saved = Cancelled))"
  by (auto simp: updatePaymentStatus_def payOrder_def order_hooks split: orderStatus.splits)

theorem payment_marks_paid_witness:
  "fst (cancelOrderRoute (shopWith lampOrder) (onDay 9) 7 100 None) = Inr cancelledOrder \<and>
   isPaid cancelledOrder = False \<and> status cancelledOrder = Cancelled \<and>
   fst (payOrder (shopWith cancelledOrder) (onDay 11) 7 100 (lampPayment 11)) =
     Inr (cancelledOrder\<lparr>isPaid := True, paidAt := Some (onDay 11),
            o_paymentResult := Some (lampPayment 11)\<rparr>) \<and>
   (\<exists>saved st'.
      payOrder (shopWith cancelledOrder) (onDay 11) 7 100 (lampPayment 11) = (Inr saved, st') \<and>
      isPaid saved \<and> status saved = Cancelled)"
proof -
  have cancel: "fst (cancelOrderRoute (shopWith lampOrder) (onDay 9) 7 100 None) =
      Inr cancelledOrder"
    by code_simp
  have pay: "fst (payOrder (shopWith cancelledOrder) (onDay 11) 7 100 (lampPayment 11)) =
     Inr (cancelledOrder\<lparr>isPaid := True, paidAt := Some (onDay 11),
            o_paymentResult := Some (lampPayment 11)\<rparr>)"
    by code_simp
  have facts: "isPaid cancelledOrder = False" "status cancelledOrder = Cancelled"
    "o_user cancelledOrder = 7" "pr_id (lampPayment 11) \<noteq> []"
    "pr_status (lampPayment 11) \<noteq> []"
    by (simp_all add: cancelledOrder_def lampOrder_def lampPayment_def)
  have found: "findById (orders (shopWith cancelledOrder)) 100 = Some cancelledOrder"
    by (rule findById_shopWith) (simp add: cancelledOrder_def lampOrder_def)
  have "\<exists>saved st'.
      payOrder (shopWith cancelledOrder) (onDay 11) 7 100 (lampPayment 11) = (Inr saved, st') \<and>
      isPaid saved \<and> status saved = Cancelled"
    using payment_marks_paid [of "orders (shopWith cancelledOrder)" "onDay 11"
        "lampPayment 11" cancelledOrder "shopWith cancelledOrder" 100 7] facts found
    by simp
  with cancel pay facts show ?thesis
    by blast
qed

subsection \<open>What each transition writes to the status history\<close>

text \<open>
  Claim C3 says that every status transition appends exactly one history entry. The code
  does so at creation (the document built by checkout has an empty history and status
  pending, and the save of a new document appends the one entry \<^verbatim>\<open>'Order created'\<close>) and
  at payment confirmation of a pending order (one entry, written by the save hook). The
  admin status route and cancelOrder push an entry themselves and then save, and since
  the status changed the save hook pushes a second entry for the same transition. The
  theorem states what each of the four operations appends; the closed instance after it
  shows the two entries for one admin update and for one cancellation of a stored pending
  order.
\<close>

theorem status_history_entries:
  "(checkoutDocument rnd st newId userId req = Inr doc \<longrightarrow>
      statusHistory doc = [] \<and> status doc = Pending) \<and>
   (saveNewOrder coll now this = Inr x \<longrightarrow>
      statusHistory x =
        statusHistory this @
        [\<lparr>h_status = status this, h_timestamp = now, h_note = ''Order created'',
          h_updatedBy = None\<rparr>]) \<and>
   (status ord = Pending \<longrightarrow>
      statusHistory (updatePaymentStatus coll now pr ord) =
        statusHistory ord @
        [\<lparr>h_status = Processing, h_timestamp = now,
          h_note = ''Status updated to processing'', h_updatedBy = None\<rparr>]) \<and>
   (findById (orders st) i = Some ord \<and> su_status body \<noteq> status ord \<longrightarrow>
      (\<exists>saved st'' e.
         updateOrderStatus st now adminId i body = (Inr saved, st'') \<and>
         h_status e = su_status body \<and> h_updatedBy e = Some adminId \<and>
         statusHistory saved =
           statusHistory ord @
           [e, \<lparr>h_status = su_status body, h_timestamp = now,
                h_note = ''Status updated to '' @ statusName (su_status body),
                h_updatedBy = None\<rparr>])) \<and>
   (status ord \<notin> {Shipped, Delivered, Cancelled} \<longrightarrow>
      (\<exists>saved.
         cancelOrder coll now reason cancelledBy ord = Inr saved \<and>
         statusHistory saved =
           statusHistory ord @
           [\<lparr>h_status = Cancelled, h_timestamp = now,
             h_note = ''Order cancelled: '' @ reason, h_updatedBy = Some cancelledBy\<rparr>,
            \<lparr>h_status = Cancelled, h_timestamp = now,
             h_note = ''Status updated to cancelled'', h_updatedBy = None\<rparr>]))"
proof (intro conjI impI)
  assume doc: "checkoutDocument rnd st newId userId req = Inr doc"
  then show "statusHistory doc = []"
    by (rule checkoutDocument_Inr)
  from doc show "status doc = Pending"
    by (rule checkoutDocument_Inr)
next
  assume "saveNewOrder coll now this = Inr x"
  then show "statusHistory x =
        statusHistory this @
        [\<lparr>h_status = status this, h_timestamp = now, h_note = ''Order created'',
          h_updatedBy = None\<rparr>]"
    by (auto simp: order_hooks dest!: saveNewOrder_Inr)
next
  assume "status ord = Pending"
  then show "statusHistory (updatePaymentStatus coll now pr ord) =
        statusHistory ord @
        [\<lparr>h_status = Processing, h_timestamp = now,
          h_note = ''Status updated to processing'', h_updatedBy = None\<rparr>]"
    by (simp add: updatePaymentStatus_def order_hooks statusName_def)
next
  assume "findById (orders st) i = Some ord \<and> su_status body \<noteq> status ord"
  then show "\<exists>saved st'' e.
         updateOrderStatus st now adminId i body = (Inr saved, st'') \<and>
         h_status e = su_status body \<and> h_updatedBy e = Some adminId \<and>
         statusHistory saved =
           statusHistory ord @
           [e, \<lparr>h_status = su_status body, h_timestamp = now,
                h_note = ''Status updated to '' @ statusName (su_status body),
                h_updatedBy = None\<rparr>]"
    by (cases "su_status body") (auto simp: updateOrderStatus_def order_hooks)
next
  assume "status ord \<notin> {Shipped, Delivered, Cancelled}"
  then show "\<exists>saved.
         cancelOrder coll now reason cancelledBy ord = Inr saved \<and>
         statusHistory saved =
           statusHistory ord @
           [\<lparr>h_status = Cancelled, h_timestamp = now,
             h_note = ''Order cancelled: '' @ reason, h_updatedBy = Some cancelledBy\<rparr>,
            \<lparr>h_status = Cancelled, h_timestamp = now,
             h_note = ''Status updated to cancelled'', h_updatedBy = None\<rparr>]"
    by (auto simp: cancelOrder_def order_hooks statusName_def)
qed

theorem status_history_entries_witness:
  "saveNewOrder [] (onDay 5) (numberedDraft 100 ''ORD2611020001'') = Inr lampOrder \<and>
   length (statusHistory lampOrder) = 1 \<and>
   fst (updateOrderStatus (shopWith lampOrder) (onDay 9) 1 100
     \<lparr>su_status = Shipped, su_trackingNumber = Some ''T1'', su_carrier = None,
      su_note = None\<rparr>) = Inr shippedOrder \<and>
   statusHistory shippedOrder =
     statusHistory lampOrder @
     [\<lparr>h_status = Shipped, h_timestamp = onDay 9,
       h_note = ''Status updated to shipped by admin'', h_updatedBy = Some 1\<rparr>,
      \<lparr>h_status = Shipped, h_timestamp = onDay 9,
       h_note = ''Status updated to shipped'', h_updatedBy = None\<rparr>] \<and>
   length (statusHistory shippedOrder) = 3 \<and>
   cancelOrder [lampOrder] (onDay 9) ''Cancelled by user'' 7 lampOrder = Inr cancelledOrder \<and>
   length (statusHistory cancelledOrder) = 3 \<and>
   (\<exists>saved.
      cancelOrder [lampOrder] (onDay 9) ''Cancelled by user'' 7 lampOrder = Inr saved \<and>
      statusHistory saved =
        statusHistory lampOrder @
        [\<lparr>h_status = Cancelled, h_timestamp = onDay 9,
          h_note = ''Order cancelled: '' @ ''Cancelled by user'', h_updatedBy = Some 7\<rparr>,
         \<lparr>h_status = Cancelled, h_timestamp = onDay 9,
          h_note = ''Status updated to cancelled'', h_updatedBy = None\<rparr>])"
proof -
  have ship: "fst (updateOrderStatus (shopWith lampOrder) (onDay 9) 1 100
     \<lparr>su_status = Shipped, su_trackingNumber = Some ''T1'', su_carrier = None,
      su_note = None\<rparr>) = Inr shippedOrder"
    by code_simp
  have cancel: "cancelOrder [lampOrder] (onDay 9) ''Cancelled by user'' 7 lampOrder =
      Inr cancelledOrder"
    by code_simp
  have pending: "status lampOrder \<notin> {Shipped, Delivered, Cancelled}"
    by (simp add: lampOrder_def)
  have two: "\<exists>saved.
      cancelOrder [lampOrder] (onDay 9) ''Cancelled by user'' 7 lampOrder = Inr saved \<and>
      statusHistory saved =
        statusHistory lampOrder @
        [\<lparr>h_status = Cancelled, h_timestamp = onDay 9,
          h_note = ''Order cancelled: '' @ ''Cancelled by user'', h_updatedBy = Some 7\<rparr>,
         \<lparr>h_status = Cancelled, h_timestamp = onDay 9,
          h_note = ''Status updated to cancelled'', h_updatedBy = None\<rparr>]"
    using status_history_entries [where ord = lampOrder and coll = "[lampOrder]"
        and now = "onDay 9" and reason = "''Cancelled by user''" and cancelledBy = 7] pending
    by blast
  have lens: "length (statusHistory lampOrder) = 1" "length (statusHistory shippedOrder) = 3"
    "length (statusHistory cancelledOrder) = 3"
    "statusHistory shippedOrder =
     statusHistory lampOrder @
     [\<lparr>h_status = Shipped, h_timestamp = onDay 9,
       h_note = ''Status updated to shipped by admin'', h_updatedBy = Some 1\<rparr>,
      \<lparr>h_status = Shipped, h_timestamp = onDay 9,
       h_note = ''Status updated to shipped'', h_updatedBy = None\<rparr>]"
    by (simp_all add: lampOrder_def shippedOrder_def cancelledOrder_def)
  have new: "saveNewOrder [] (onDay 5) (numberedDraft 100 ''ORD2611020001'') = Inr lampOrder"
    by code_simp
  from new ship cancel two lens show ?thesis
    by blast
qed

subsection \<open>Confirming a payment twice\<close>

text \<open>
  Claim C4 says that a second payment confirmation leaves isPaid, paidAt and
  paymentResult as they were. For an order that is already paid, the pay route answers
  with an error and the Stripe webhook does nothing: on both the store is unchanged. The
  route POST /api/payments/stripe/confirm has no such guard: it calls updatePaymentStatus
  again, which overwrites paidAt with the time of the second call and paymentResult with
  a new record. (The status and the history are left alone unless the status is
  pending.) The closed instance confirms the same intent at time 8 and again at time 12.
\<close>

theorem repeated_confirmation:
  "findById (orders st) i = Some ord \<and> isPaid ord \<and> o_user ord = userId \<longrightarrow>
     payOrder st now userId i pr =
       (Inl (if pr_id pr = [] \<or> pr_status pr = [] then ValidationError else OrderAlreadyPaid),
        st) \<and>
     stripeWebhookSucceeded st now (intent\<lparr>pi_orderId := Some i\<rparr>) = st \<and>
     (pi_status intent = ''succeeded'' \<longrightarrow>
        (\<exists>saved.
           stripeConfirm st now userId email intent i =
             (Inr saved, st\<lparr>orders := putOrder saved (orders st)\<rparr>) \<and>
           paidAt saved = Some now \<and>
           map_option update_time (o_paymentResult saved) = Some now \<and>
           map_option pr_id (o_paymentResult saved) = Some (pi_id intent) \<and>
           status saved = (if status ord = Pending then Processing else status ord) \<and>
           (status ord \<noteq> Pending \<longrightarrow> statusHistory saved = statusHistory ord)))"
  by (auto simp: payOrder_def stripeWebhookSucceeded_def stripeConfirm_def
        updatePaymentStatus_def order_hooks)

theorem repeated_confirmation_witness:
  "fst (stripeConfirm (shopWith lampOrder) (onDay 8) 7 ''a@b.c'' lampIntent 100) =
     Inr (paidOrder 8) \<and>
   fst (stripeConfirm (shopWith (paidOrder 8)) (onDay 12) 7 ''a@b.c'' lampIntent 100) =
     Inr (paidOrder 12) \<and>
   paidAt (paidOrder 8) = Some (onDay 8) \<and> paidAt (paidOrder 12) = Some (onDay 12) \<and>
   onDay 8 \<noteq> onDay 12 \<and>
   o_paymentResult (paidOrder 8) \<noteq> o_paymentResult (paidOrder 12) \<and>
   payOrder (shopWith (paidOrder 8)) (onDay 12) 7 100 (lampPayment 12) =
     (Inl OrderAlreadyPaid, shopWith (paidOrder 8)) \<and>
   stripeWebhookSucceeded (shopWith (paidOrder 8)) (onDay 12) lampIntent =
     shopWith (paidOrder 8)"
proof -
  have first: "fst (stripeConfirm (shopWith lampOrder) (onDay 8) 7 ''a@b.c'' lampIntent 100) =
     Inr (paidOrder 8)"
    by code_simp
  have second: "fst (stripeConfirm (shopWith (paidOrder 8)) (onDay 12) 7 ''a@b.c''
     lampIntent 100) = Inr (paidOrder 12)"
    by code_simp
  have differ: "paidAt (paidOrder 8) = Some (onDay 8)" "paidAt (paidOrder 12) = Some (onDay 12)"
    "onDay 8 \<noteq> onDay 12" "o_paymentResult (paidOrder 8) \<noteq> o_paymentResult (paidOrder 12)"
    by (simp_all add: paidOrder_def lampOrder_def onDay_def lampPayment_def)
  have facts: "isPaid (paidOrder 8)" "o_user (paidOrder 8) = 7"
    "pr_id (lampPayment 12) \<noteq> []" "pr_status (lampPayment 12) \<noteq> []"
    "lampIntent\<lparr>pi_orderId := Some 100\<rparr> = lampIntent"
    by (simp_all add: paidOrder_def lampOrder_def lampPayment_def lampIntent_def)
  have found: "findById (orders (shopWith (paidOrder 8))) 100 = Some (paidOrder 8)"
    by (rule findById_shopWith) (simp add: paidOrder_def lampOrder_def)
  have "payOrder (shopWith (paidOrder 8)) (onDay 12) 7 100 (lampPayment 12) =
     (Inl OrderAlreadyPaid, shopWith (paidOrder 8)) \<and>
   stripeWebhookSucceeded (shopWith (paidOrder 8)) (onDay 12) lampIntent =
     shopWith (paidOrder 8)"
    using repeated_confirmation [of "shopWith (paidOrder 8)" 100 "paidOrder 8" 7 "onDay 12"
        "lampPayment 12" lampIntent "''a@b.c''"] facts found
    by simp
  with first second differ show ?thesis
    by blast
qed


section \<open>Order numbers\<close>

subsection \<open>Decimal digits\<close>

lemma natToString_small: "n < 10 \<Longrightarrow> natToString n = [digitChar n]"
  by (subst natToString.simps) simp

lemma natToString_step: "10 \<le> n \<Longrightarrow> natToString n = natToString (n div 10) @ [digitChar (n mod 10)]"
  by (subst natToString.simps) simp

lemma natToString_last: "\<exists>pre. natToString n = pre @ [digitChar (n mod 10)]"
  by (cases "n < 10") (simp_all add: natToString_small natToString_step)

lemma natToString_2: "10 \<le> n \<Longrightarrow> n < 100 \<Longrightarrow> natToString n = twoDigits n"
  by (simp add: natToString_step natToString_small twoDigits_def)

lemma natToString_3:
  "100 \<le> n \<Longrightarrow> n < 1000 \<Longrightarrow>
   natToString n = [digitChar (n div 100), digitChar (n div 10 mod 10), digitChar (n mod 10)]"
  by (simp add: natToString_step [of n] natToString_2 twoDigits_def div_mult2_eq [symmetric])

lemma natToString_4:
  "1000 \<le> n \<Longrightarrow> n < 10000 \<Longrightarrow> natToString n = fourDigits n"
  by (simp add: natToString_step [of n] natToString_3 fourDigits_def div_mult2_eq [symmetric])

lemma digitChar_0: "digitChar 0 = CHR ''0''"
  by code_simp

lemma padStart_2: "n < 100 \<Longrightarrow> padStart 2 (natToString n) = twoDigits n"
  by (cases "n < 10")
     (simp_all add: padStart_def natToString_small natToString_2 twoDigits_def digitChar_0
        numeral_2_eq_2)

lemma replicate_2: "replicate 2 c = [c, c]" and replicate_3: "replicate 3 c = [c, c, c]"
  by (simp_all add: numeral_2_eq_2 numeral_3_eq_3)

lemma fourDigits_lt_10:
  "n < 10 \<Longrightarrow> fourDigits n = [CHR ''0'', CHR ''0'', CHR ''0'', digitChar n]"
  by (simp add: fourDigits_def digitChar_0)

lemma fourDigits_lt_100:
  "n < 100 \<Longrightarrow>
   fourDigits n = [CHR ''0'', CHR ''0'', digitChar (n div 10 mod 10), digitChar (n mod 10)]"
  by (simp add: fourDigits_def digitChar_0)

lemma fourDigits_lt_1000:
  assumes "n < 1000"
  shows "fourDigits n =
    [CHR ''0'', digitChar (n div 100), digitChar (n div 10 mod 10), digitChar (n mod 10)]"
proof -
  from assms have "n div 1000 = 0" by simp
  moreover from assms have "n div 100 < 10" by (simp add: div_less_iff_less_mult)
  ultimately show ?thesis
    by (simp add: fourDigits_def digitChar_0)
qed

lemma length_fourDigits [simp]: "length (fourDigits n) = 4"
  by (simp add: fourDigits_def)

lemma padStart_4: "n < 10000 \<Longrightarrow> padStart 4 (natToString n) = fourDigits n"
proof -
  assume n: "n < 10000"
  consider "n < 10" | "10 \<le> n" "n < 100" | "100 \<le> n" "n < 1000" | "1000 \<le> n"
    by linarith
  then show ?thesis
  proof cases
    case 1
    then show ?thesis
      by (simp add: padStart_def natToString_small fourDigits_lt_10 replicate_3)
  next
    case 2
    then show ?thesis
      by (simp add: padStart_def natToString_2 twoDigits_def fourDigits_lt_100 replicate_2)
  next
    case 3
    then show ?thesis
      by (simp add: padStart_def natToString_3 fourDigits_lt_1000)
  next
    case 4
    with n show ?thesis
      by (simp add: padStart_def natToString_4)
  qed
qed

lemma substrLast_year: "10 \<le> y \<Longrightarrow> substrLast 2 (natToString y) = twoDigits y"
proof -
  assume y: "10 \<le> y"
  obtain pre where "natToString (y div 10) = pre @ [digitChar (y div 10 mod 10)]"
    using natToString_last by blast
  with y show ?thesis
    by (simp add: natToString_step substrLast_def twoDigits_def)
qed


lemma mod_100_digits: "n mod 100 = n div 10 mod 10 * 10 + n mod 10" for n :: nat
  using mod_mult2_eq [of n 10 10] by simp

lemma mod_1000_digits: "n mod 1000 = n div 100 mod 10 * 100 + n mod 100" for n :: nat
  using mod_mult2_eq [of n 100 10] by simp

lemma mod_10000_digits: "n mod 10000 = n div 1000 mod 10 * 1000 + n mod 1000" for n :: nat
  using mod_mult2_eq [of n 1000 10] by simp

lemma horner4:
  "n = a * 1000 + (b * 100 + (c * 10 + d)) \<Longrightarrow> ((a * 10 + b) * 10 + c) * 10 + d = n"
  for n :: nat
  by simp

lemma digits_value:
  fixes n :: nat
  assumes "n < 10000"
  shows "((n div 1000 mod 10 * 10 + n div 100 mod 10) * 10 + n div 10 mod 10) * 10 + n mod 10 = n"
proof -
  from assms have "n = n mod 10000" by simp
  also have "\<dots> =
      n div 1000 mod 10 * 1000 + (n div 100 mod 10 * 100 + (n div 10 mod 10 * 10 + n mod 10))"
    by (simp only: mod_10000_digits mod_1000_digits mod_100_digits)
  finally have "n =
      n div 1000 mod 10 * 1000 + (n div 100 mod 10 * 100 + (n div 10 mod 10 * 10 + n mod 10))" .
  then show ?thesis
    by (rule horner4)
qed

lemma of_char_digitChar: "d < 10 \<Longrightarrow> (of_char (digitChar d) :: nat) = 48 + d"
  by (simp add: digitChar_def)

lemma digitValue_digitChar: "d < 10 \<Longrightarrow> digitValue 10 (digitChar d) = Some d"
  by (simp add: digitValue_def of_char_digitChar)

lemma digitChar_not_space: "d < 10 \<Longrightarrow> \<not> isWhiteSpace (digitChar d)"
  by (simp add: isWhiteSpace_def of_char_digitChar)

lemma digitChar_neq:
  assumes "d < 10"
  shows "digitChar d \<noteq> CHR ''-''" "digitChar d \<noteq> CHR ''+''" "digitChar d \<noteq> CHR ''x''"
    "digitChar d \<noteq> CHR ''X''"
proof -
  have "(of_char (digitChar d) :: nat) < 58"
    using assms by (simp add: of_char_digitChar)
  moreover have "(of_char (digitChar d) :: nat) \<ge> 48"
    using assms by (simp add: of_char_digitChar)
  ultimately show "digitChar d \<noteq> CHR ''-''" "digitChar d \<noteq> CHR ''+''"
    "digitChar d \<noteq> CHR ''x''" "digitChar d \<noteq> CHR ''X''"
    by auto
qed

lemma parseInt_four:
  assumes "a < 10" "b < 10" "c < 10" "d < 10"
  shows "parseInt [digitChar a, digitChar b, digitChar c, digitChar d] =
    Some (int (((a * 10 + b) * 10 + c) * 10 + d))"
  using assms
  by (simp add: parseInt_def Let_def digitChar_not_space digitChar_neq digitValue_digitChar)

lemma parseInt_fourDigits:
  assumes "n < 10000"
  shows "parseInt (fourDigits n) = Some (int n)"
proof -
  have "parseInt (fourDigits n) =
    Some (int (((n div 1000 mod 10 * 10 + n div 100 mod 10) * 10 + n div 10 mod 10) * 10 +
      n mod 10))"
    unfolding fourDigits_def by (rule parseInt_four) simp_all
  then show ?thesis
    by (simp only: digits_value [OF assms])
qed

lemma substrLast_fourDigits: "substrLast 4 (pre @ fourDigits n) = fourDigits n"
  by (simp add: substrLast_def)



lemma digitChar_values:
  "digitChar 0 = CHR ''0''" "digitChar 1 = CHR ''1''" "digitChar 2 = CHR ''2''"
  "digitChar 3 = CHR ''3''" "digitChar 4 = CHR ''4''" "digitChar 5 = CHR ''5''"
  "digitChar 6 = CHR ''6''" "digitChar 7 = CHR ''7''" "digitChar 8 = CHR ''8''"
  "digitChar 9 = CHR ''9''" "digitChar (Suc 0) = CHR ''1''"
  by code_simp+


subsection \<open>The number a new order gets\<close>

lemma nextSequence_of_suffix:
  assumes "orderNumber lo = pre @ fourDigits n" "n < 10000"
  shows "nextSequence (Some lo) = Some (int n + 1)"
proof -
  have "fourDigits n \<noteq> []"
    by (simp add: fourDigits_def)
  then show ?thesis
    by (simp add: nextSequence_def assms substrLast_fourDigits parseInt_fourDigits)
qed

lemma saveOrder_new_number:
  "orderNumber (saveOrder coll now None x) =
     formatOrderNumber now (nextSequence (findLastOrderOfDay coll now))"
  "createdAt (saveOrder coll now None x) = now"
  by (simp_all add: order_hooks)

lemma numToString_int: "numToString (Some (int k)) = natToString k"
  by (simp add: numToString_def)

lemma formatOrderNumber_digits:
  "k < 10000 \<Longrightarrow> 10 \<le> getFullYear d \<Longrightarrow> getMonth d + 1 < 100 \<Longrightarrow> getDate d < 100 \<Longrightarrow>
   formatOrderNumber d (Some (int k)) =
     ''ORD'' @ twoDigits (getFullYear d) @ twoDigits (getMonth d + 1) @ twoDigits (getDate d) @
     fourDigits k"
  by (simp add: formatOrderNumber_def Let_def numToString_int padStart_4 padStart_2
        substrLast_year)

lemma natToString_10000: "natToString 10000 = ''10000''"
  by (simp add: natToString_step natToString_small digitChar_values)

lemma formatOrderNumber_10000:
  "10 \<le> getFullYear d \<Longrightarrow> getMonth d + 1 < 100 \<Longrightarrow> getDate d < 100 \<Longrightarrow>
   formatOrderNumber d (Some 10000) =
     ''ORD'' @ twoDigits (getFullYear d) @ twoDigits (getMonth d + 1) @ twoDigits (getDate d) @
     ''10000''"
proof -
  have "padStart 4 ''10000'' = ''10000''"
    by (simp add: padStart_def)
  then show "10 \<le> getFullYear d \<Longrightarrow> getMonth d + 1 < 100 \<Longrightarrow> getDate d < 100 \<Longrightarrow>
   formatOrderNumber d (Some 10000) =
     ''ORD'' @ twoDigits (getFullYear d) @ twoDigits (getMonth d + 1) @ twoDigits (getDate d) @
     ''10000''"
    by (simp add: formatOrderNumber_def Let_def numToString_def natToString_10000 padStart_2
          substrLast_year)
qed

text \<open>
  Claim C7 describes the number generated at creation. Two things in the code stand
  against it.

  First, no number is generated for an order that checkout creates: the document reaches
  \<^verbatim>\<open>save()\<close> without a number, the validation of the required field runs before the hook,
  and the save throws (first two conjuncts; the same defect as in claim C2).

  Second, where the save of a new document does get to the hook (a document that carries
  some number already), the hook replaces the number by \<^verbatim>\<open>ORD\<close>, year, month and day in
  two digits each, and a sequence padded to at least four digits. The sequence is 1 when
  no order was created that day. Otherwise it is not the count of the day's orders plus
  one: it is one more than the number read from the last four characters of the number of
  the order created last that day. After a number ending in 9999 the sequence is 10000,
  five digits; after a number that ends in characters that are not a sequence, as the
  numbers \<^verbatim>\<open>ORD-<ms>-<i>\<close> written by the seed script, it is whatever \<^verbatim>\<open>parseInt\<close> reads
  there plus one.
\<close>

theorem order_number_hook:
  "(orderNumber this = [] \<longrightarrow> saveNewOrder coll now this = Inl ValidationError) \<and>
   (checkoutDocument rnd st newId userId req = Inr doc \<longrightarrow>
      saveNewOrder (orders st) now doc = Inl ValidationError) \<and>
   (saveNewOrder coll now this = Inr x \<longrightarrow>
      orderNumber x = formatOrderNumber now (nextSequence (findLastOrderOfDay coll now))) \<and>
   (findLastOrderOfDay coll now = None \<longrightarrow>
      nextSequence (findLastOrderOfDay coll now) = Some 1) \<and>
   (findLastOrderOfDay coll now = Some lo \<and> orderNumber lo = pre @ fourDigits n \<and> n < 10000 \<longrightarrow>
      nextSequence (findLastOrderOfDay coll now) = Some (int n + 1)) \<and>
   (10 \<le> getFullYear now \<and> getMonth now < 12 \<and> getDate now \<le> 31 \<longrightarrow>
      (k < 10000 \<longrightarrow>
         formatOrderNumber now (Some (int k)) =
           ''ORD'' @ twoDigits (getFullYear now) @ twoDigits (getMonth now + 1) @
           twoDigits (getDate now) @ fourDigits k) \<and>
      formatOrderNumber now (Some 10000) =
        ''ORD'' @ twoDigits (getFullYear now) @ twoDigits (getMonth now + 1) @
        twoDigits (getDate now) @ ''10000'')"
proof (intro conjI impI)
  assume "orderNumber this = []"
  then show "saveNewOrder coll now this = Inl ValidationError"
    by (simp add: saveNewOrder_def order_valid_def)
next
  assume "checkoutDocument rnd st newId userId req = Inr doc"
  then have "orderNumber doc = []"
    by (rule checkoutDocument_Inr)
  then show "saveNewOrder (orders st) now doc = Inl ValidationError"
    by (simp add: saveNewOrder_def order_valid_def)
next
  assume "saveNewOrder coll now this = Inr x"
  then show "orderNumber x = formatOrderNumber now (nextSequence (findLastOrderOfDay coll now))"
    by (auto simp: saveOrder_new_number dest!: saveNewOrder_Inr)
next
  assume "findLastOrderOfDay coll now = None"
  then show "nextSequence (findLastOrderOfDay coll now) = Some 1"
    by (simp add: nextSequence_def)
next
  assume a: "findLastOrderOfDay coll now = Some lo \<and> orderNumber lo = pre @ fourDigits n \<and>
    n < 10000"
  then have "nextSequence (Some lo) = Some (int n + 1)"
    using nextSequence_of_suffix [of lo pre n] by simp
  with a show "nextSequence (findLastOrderOfDay coll now) = Some (int n + 1)"
    by simp
next
  assume d: "10 \<le> getFullYear now \<and> getMonth now < 12 \<and> getDate now \<le> 31"
  then have d': "10 \<le> getFullYear now" "getMonth now + 1 < 100" "getDate now < 100"
    by simp_all
  then show "formatOrderNumber now (Some 10000) =
        ''ORD'' @ twoDigits (getFullYear now) @ twoDigits (getMonth now + 1) @
        twoDigits (getDate now) @ ''10000''"
    by (rule formatOrderNumber_10000)
  assume "k < 10000"
  then show "formatOrderNumber now (Some (int k)) =
           ''ORD'' @ twoDigits (getFullYear now) @ twoDigits (getMonth now + 1) @
           twoDigits (getDate now) @ fourDigits k"
    using d' by (rule formatOrderNumber_digits)
qed

text \<open>
  On 2 November 2026. The document of the sample checkout, without a number, is rejected.
  With a number supplied, the hook numbers the first order of the day
  \<^verbatim>\<open>ORD2611020001\<close> and the next one \<^verbatim>\<open>ORD2611020002\<close>. When the one order of the day
  carries a number of the seed script, the new order gets sequence 0001 again (the count
  of the day plus one is 2); when it carries a number ending in 9999, the new order gets
  the five-digit sequence 10000.
\<close>

theorem order_number_hook_witness:
  "saveNewOrder [] (onDay 5) (draftOrder 100) = Inl ValidationError \<and>
   (\<exists>x. saveNewOrder [] (onDay 5) (numberedDraft 100 ''X'') = Inr x \<and>
        orderNumber x = ''ORD2611020001'') \<and>
   (\<exists>x. saveNewOrder [lampOrder] (onDay 20) (numberedDraft 101 ''X'') = Inr x \<and>
        orderNumber x = ''ORD2611020002'') \<and>
   (\<exists>x. saveNewOrder [lampOrder\<lparr>orderNumber := ''ORD-1700000000000-5''\<rparr>] (onDay 20)
          (numberedDraft 101 ''X'') = Inr x \<and>
        orderNumber x = ''ORD2611020001'') \<and>
   (\<exists>x. saveNewOrder [lampOrder\<lparr>orderNumber := ''ORD2611029999''\<rparr>] (onDay 20)
          (numberedDraft 101 ''X'') = Inr x \<and>
        orderNumber x = ''ORD26110210000'')"
proof -
  let ?last = "lampOrder\<lparr>orderNumber := ''ORD2611029999''\<rparr>"
  have rejected: "saveNewOrder [] (onDay 5) (draftOrder 100) = Inl ValidationError"
    using order_number_hook [of "draftOrder 100" "[]" "onDay 5"]
    by (simp add: draftOrder_def newOrder_def)
  have valid: "order_valid (numberedDraft i ''X'')" for i
    by (simp add: numberedDraft_def draftOrder_def newOrder_def order_valid_def
          orderItem_valid_def)
  have first: "orderNumber (saveOrder [] (onDay 5) None (numberedDraft 100 ''X'')) =
      ''ORD2611020001''"
    by code_simp
  have second: "orderNumber (saveOrder [lampOrder] (onDay 20) None (numberedDraft 101 ''X'')) =
      ''ORD2611020002''"
    by code_simp
  have seeded: "orderNumber (saveOrder [lampOrder\<lparr>orderNumber := ''ORD-1700000000000-5''\<rparr>]
      (onDay 20) None (numberedDraft 101 ''X'')) = ''ORD2611020001''"
    by code_simp
  have lo: "findLastOrderOfDay [?last] (onDay 20) = Some ?last"
    by code_simp
  have num: "orderNumber ?last = ''ORD261102'' @ fourDigits 9999"
    by (simp add: fourDigits_def digitChar_values)
  have seq: "nextSequence (findLastOrderOfDay [?last] (onDay 20)) = Some (int 9999 + 1)"
    using order_number_hook [of "draftOrder 100" "[?last]" "onDay 20" id shop 100 7 lampRequest
        "draftOrder 100" "draftOrder 100" ?last "''ORD261102''" 9999] lo num
    by simp
  have fmt: "formatOrderNumber (onDay 20) (Some 10000) = ''ORD26110210000''"
    using order_number_hook [of "draftOrder 100" "[?last]" "onDay 20" id shop 100 7 lampRequest
        "draftOrder 100" "draftOrder 100" ?last "''ORD261102''" 9999 0]
    by (simp add: onDay_def twoDigits_def digitChar_values)
  have overflow: "orderNumber (saveOrder [?last] (onDay 20) None (numberedDraft 101 ''X'')) =
      ''ORD26110210000''"
    using seq fmt by (simp add: saveOrder_new_number)
  from rejected first second seeded overflow show ?thesis
    by (simp add: saveNewOrder_def valid)
qed


end
